theory Spec2Isabelle
  imports Main "HOL-Library.Dlist" "HOL-Library.AList"
begin

section \<open>Values exchanged on the wire\<close>

text \<open>
  The server of \<^verbatim>\<open>grace_ide/api/websocket.py\<close> exchanges JSON envelopes. A value is what
  \<^verbatim>\<open>json.loads\<close> returns or \<^verbatim>\<open>json.dumps\<close> accepts: Python's \<^verbatim>\<open>None\<close> is \<open>JNull\<close>, a dict
  is \<open>JObj\<close> (the list holds each key once, as a parsed dict does), numbers are integers
  (floats are left out). Two kinds of strings are kept symbolic, their characters not
  modelled: \<open>JTime t\<close> is \<^verbatim>\<open>datetime.now().isoformat()\<close> read at clock value \<open>t\<close>, and
  \<open>JToken cid ws exp key\<close> is the compact JWT string that \<^verbatim>\<open>jwt.encode\<close> makes of the payload
  \<^verbatim>\<open>{client_id, workspace, exp}\<close> under the signing key \<open>key\<close>.
\<close>

datatype json =
    JNull
  | JBool bool
  | JNum int
  | JStr string
  | JArr "json list"
  | JObj "(string \<times> json) list"
  | JTime int
  | JToken string string int string

text \<open>Python truth value of a JSON value (\<^verbatim>\<open>if not message_type\<close>, \<^verbatim>\<open>if channel\<close>).\<close>

fun truthy :: "json \<Rightarrow> bool" where
  "truthy JNull = False"
| "truthy (JBool b) = b"
| "truthy (JNum n) = (n \<noteq> 0)"
| "truthy (JStr s) = (s \<noteq> [])"
| "truthy (JArr xs) = (xs \<noteq> [])"
| "truthy (JObj kvs) = (kvs \<noteq> [])"
| "truthy (JTime t) = True"
| "truthy (JToken c w e k) = True"

text \<open>Lists and dicts cannot be dictionary keys: \<^verbatim>\<open>d.get(x)\<close> raises \<^verbatim>\<open>TypeError\<close> on them.\<close>

fun hashable :: "json \<Rightarrow> bool" where
  "hashable (JArr xs) = False"
| "hashable (JObj kvs) = False"
| "hashable v = True"

text \<open>
  The exceptions that occur. \<open>CancelledError\<close> stands for the exceptions that derive from
  \<^verbatim>\<open>BaseException\<close> only (\<^verbatim>\<open>asyncio.CancelledError\<close>, raised at an \<^verbatim>\<open>await\<close> of a cancelled
  task): an \<^verbatim>\<open>except Exception\<close> clause does not catch it.
\<close>

datatype exn =
    JSONDecodeError
  | InvalidTokenError
  | KeyError
  | TypeError
  | AttributeError
  | ConnectionClosed
  | OtherException string
  | CancelledError

fun is_Exception :: "exn \<Rightarrow> bool" where
  "is_Exception CancelledError = False"
| "is_Exception e = True"

datatype 'a outcome = Return 'a | Raise exn

text \<open>\<^verbatim>\<open>data.get(key)\<close>: \<^verbatim>\<open>None\<close> for a missing key, \<^verbatim>\<open>AttributeError\<close> when \<open>data\<close> is no dict.\<close>

fun dict_get :: "json \<Rightarrow> string \<Rightarrow> json outcome" where
  "dict_get (JObj kvs) k = Return (case map_of kvs k of None \<Rightarrow> JNull | Some v \<Rightarrow> v)"
| "dict_get v k = Raise AttributeError"

section \<open>Sessions, rooms, metrics\<close>

text \<open>
  The dataclass \<^verbatim>\<open>Client\<close>. A client object is addressed by its id (the \<^verbatim>\<open>id\<close> field is the
  address, so the record has no field for it). A Python set is a duplicate-free list
  (\<open>dlist\<close>); the order of iteration, which Python leaves open, is the order of the list.
\<close>

record client =
  websocket :: nat
  workspace :: string
  authenticated :: bool
  permissions :: "string dlist"
  metadata :: "(string \<times> json) list"
  connected_at :: int
  last_activity :: int

record metrics =
  messages_sent :: nat
  messages_received :: nat
  errors :: nat
  active_connections :: nat
  total_connections :: nat

text \<open>What a run of the server does to the outside: frames written to a connection, and
  calls of the two external entry points \<^verbatim>\<open>handle_file_operation_request\<close> and
  \<^verbatim>\<open>handle_deployment_request\<close>.\<close>

datatype event =
    Frame nat json
  | FileOperationRequest nat json
  | DeploymentRequest nat json

text \<open>
  The state of a \<^verbatim>\<open>WebSocketServer\<close> and of its environment.
  \<^item> \<open>clients\<close> holds the keys of \<^verbatim>\<open>self.clients\<close> in insertion order; the value stored under
    a key \<open>c\<close> is the client object \<open>heap s c\<close>. An object outlives its registry entry, as
    the reference held by a running handler does.
  \<^item> \<open>rooms\<close> is \<^verbatim>\<open>self.rooms\<close>, a \<^verbatim>\<open>defaultdict(set)\<close>, in insertion order. Its keys are
    the workspace names (\<open>JStr w\<close>) and whatever hashable value a client subscribes to.
  \<^item> \<open>now\<close> is the clock (epoch seconds) read by \<^verbatim>\<open>time.time()\<close> and \<^verbatim>\<open>datetime.now()\<close>.
  \<^item> \<open>wire\<close> decides what the \<open>k\<close>-th call of \<^verbatim>\<open>websocket.send\<close> does: \<open>None\<close> writes the
    frame, \<open>Some e\<close> raises \<open>e\<close>; \<open>attempts\<close> counts the calls made so far.
  \<^item> \<open>trace\<close> records the events in the order they happen.
\<close>

record state =
  clients :: "string list"
  heap :: "string \<Rightarrow> client"
  rooms :: "(json \<times> string dlist) list"
  metrics :: metrics
  secret_key :: string
  now :: int
  wire :: "nat \<Rightarrow> exn option"
  attempts :: nat
  trace :: "event list"

text \<open>A computation returns or raises, and leaves a state; \<open>None\<close> means that the fuel
  bounding the nesting of disconnects ran out.\<close>

type_synonym 'a io = "('a outcome \<times> state) option"

text \<open>\<^verbatim>\<open>await websocket.send(json.dumps(data))\<close> on the connection \<open>w\<close>.\<close>

definition ws_send :: "nat \<Rightarrow> json \<Rightarrow> state \<Rightarrow> unit outcome \<times> state" where
  "ws_send w data s =
     (case wire s (attempts s) of
        None \<Rightarrow> (Return (), s\<lparr>attempts := Suc (attempts s), trace := trace s @ [Frame w data]\<rparr>)
      | Some e \<Rightarrow> (Raise e, s\<lparr>attempts := Suc (attempts s)\<rparr>))"

text \<open>\<^verbatim>\<open>self.rooms.get(workspace, set()).copy()\<close>: the snapshot a broadcast iterates over.\<close>

definition room_members :: "string \<Rightarrow> state \<Rightarrow> string list" where
  "room_members w s =
     (case map_of (rooms s) (JStr w) of None \<Rightarrow> [] | Some ms \<Rightarrow> list_of_dlist ms)"

text \<open>
  Dictionary keys are compared with \<^verbatim>\<open>==\<close>, under which \<^verbatim>\<open>True\<close> is \<^verbatim>\<open>1\<close> and \<^verbatim>\<open>False\<close> is
  \<^verbatim>\<open>0\<close>: \<open>dict_key\<close> gives the representative under which a hashable value is stored.
\<close>

fun dict_key :: "json \<Rightarrow> json" where
  "dict_key (JBool b) = JNum (if b then 1 else 0)"
| "dict_key v = v"

text \<open>\<^verbatim>\<open>self.rooms[k]\<close> on the defaultdict: a missing key reads as the empty set (and is
  stored with it).\<close>

definition room_lookup :: "json \<Rightarrow> state \<Rightarrow> string dlist" where
  "room_lookup w s = (case map_of (rooms s) w of None \<Rightarrow> Dlist.empty | Some ms \<Rightarrow> ms)"

text \<open>\<^verbatim>\<open>self.rooms[w].add(c)\<close> and \<^verbatim>\<open>self.rooms[w].discard(c)\<close>.\<close>

definition room_add :: "json \<Rightarrow> string \<Rightarrow> state \<Rightarrow> state" where
  "room_add w c s = s\<lparr>rooms := AList.update w (Dlist.insert c (room_lookup w s)) (rooms s)\<rparr>"

definition room_discard :: "json \<Rightarrow> string \<Rightarrow> state \<Rightarrow> state" where
  "room_discard w c s = s\<lparr>rooms := AList.update w (Dlist.remove c (room_lookup w s)) (rooms s)\<rparr>"

text \<open>\<^verbatim>\<open>for room_clients in self.rooms.values(): room_clients.discard(client_id)\<close>.\<close>

definition discard_everywhere :: "string \<Rightarrow> state \<Rightarrow> state" where
  "discard_everywhere c s = s\<lparr>rooms := map (\<lambda>(w, ms). (w, Dlist.remove c ms)) (rooms s)\<rparr>"

text \<open>\<^verbatim>\<open>del self.clients[client_id]; self.metrics['active_connections'] = len(self.clients)\<close>,
  once the key is known to be there.\<close>

definition delete_client :: "string \<Rightarrow> state \<Rightarrow> state" where
  "delete_client c s =
     s\<lparr>clients := removeAll c (clients s),
       metrics := (metrics s)\<lparr>active_connections := length (removeAll c (clients s))\<rparr>\<rparr>"

definition user_left :: "string \<Rightarrow> state \<Rightarrow> json" where
  "user_left c s =
     JObj [(''type'', JStr ''user_left''), (''client_id'', JStr c), (''timestamp'', JTime (now s))]"

section \<open>Sending and disconnecting\<close>

text \<open>
  \<^verbatim>\<open>send_to_client\<close>, \<^verbatim>\<open>send_to_workspace\<close> and \<^verbatim>\<open>disconnect_client\<close> call each other: a failed
  write disconnects the receiver, and a disconnect notifies the workspace. The first
  argument is fuel, spent by each nested \<^verbatim>\<open>disconnect_client\<close>. The loop of
  \<^verbatim>\<open>send_to_workspace\<close> runs over the snapshot taken at the call.
\<close>

fun send_to_client :: "nat \<Rightarrow> string \<Rightarrow> json \<Rightarrow> state \<Rightarrow> unit io"
  and send_to_workspace_loop :: "nat \<Rightarrow> string list \<Rightarrow> json \<Rightarrow> string option \<Rightarrow> state \<Rightarrow> unit io"
  and disconnect_client :: "nat \<Rightarrow> string \<Rightarrow> state \<Rightarrow> unit io"
where
  "send_to_client n c data s =
     (if c \<in> set (clients s) then
        (case ws_send (websocket (heap s c)) data s of
           (Return u, s1) \<Rightarrow>
             Some (Return (), s1\<lparr>metrics := (metrics s1)\<lparr>messages_sent := Suc (messages_sent (metrics s1))\<rparr>\<rparr>)
         | (Raise e, s1) \<Rightarrow>
             if is_Exception e then disconnect_client n c s1 else Some (Raise e, s1))
      else Some (Return (), s))"
| "send_to_workspace_loop n [] data ex s = Some (Return (), s)"
| "send_to_workspace_loop n (c # cs) data ex s =
     (if Some c \<noteq> ex then
        (case send_to_client n c data s of
           None \<Rightarrow> None
         | Some (Raise e, s1) \<Rightarrow> Some (Raise e, s1)
         | Some (Return u, s1) \<Rightarrow> send_to_workspace_loop n cs data ex s1)
      else send_to_workspace_loop n cs data ex s)"
| "disconnect_client 0 c s = (if c \<in> set (clients s) then None else Some (Return (), s))"
| "disconnect_client (Suc n) c s =
     (if c \<notin> set (clients s) then Some (Return (), s)
      else
        (let s1 = discard_everywhere c s; w = workspace (heap s c) in
         case (if w \<noteq> [] then send_to_workspace_loop n (room_members w s1) (user_left c s1) (Some c) s1
               else Some (Return (), s1)) of
           None \<Rightarrow> None
         | Some (Raise e, s2) \<Rightarrow> Some (Raise e, s2)
         | Some (Return u, s2) \<Rightarrow>
             if c \<in> set (clients s2) then Some (Return (), delete_client c s2)
             else Some (Raise KeyError, s2)))"

definition send_to_workspace :: "nat \<Rightarrow> string \<Rightarrow> json \<Rightarrow> string option \<Rightarrow> state \<Rightarrow> unit io" where
  "send_to_workspace n w data ex s = send_to_workspace_loop n (room_members w s) data ex s"

text \<open>\<^verbatim>\<open>send_error\<close>: the error envelope, sent to one client.\<close>

definition error_envelope :: "string \<Rightarrow> state \<Rightarrow> json" where
  "error_envelope msg s =
     JObj [(''type'', JStr ''error''), (''error'', JStr msg), (''timestamp'', JTime (now s))]"

definition send_error :: "nat \<Rightarrow> string \<Rightarrow> string \<Rightarrow> state \<Rightarrow> unit io" where
  "send_error n c msg s = send_to_client n c (error_envelope msg s) s"

text \<open>Sequencing: the second computation runs when the first one returns.\<close>

definition and_then :: "'a io \<Rightarrow> ('a \<Rightarrow> state \<Rightarrow> 'b io) \<Rightarrow> 'b io" where
  "and_then r f =
     (case r of
        None \<Rightarrow> None
      | Some (Raise e, s) \<Rightarrow> Some (Raise e, s)
      | Some (Return a, s) \<Rightarrow> f a s)"

section \<open>Tokens\<close>

text \<open>
  Modelled from the spec: \<^verbatim>\<open>jwt.encode\<close> and \<^verbatim>\<open>jwt.decode\<close> of the PyJWT package, which
  \<^verbatim>\<open>_handle_auth\<close> calls and which is no part of the repository. The spec: a token is the
  payload {session id, workspace, expiry epoch} signed with the process-wide secret;
  validation fails when the signature does not match the current process secret or the
  expiry epoch has passed, and yields the payload otherwise. A value that is no token
  fails validation too.
\<close>

definition jwt_encode :: "string \<Rightarrow> string \<Rightarrow> int \<Rightarrow> string \<Rightarrow> json" where
  "jwt_encode cid w exp key = JToken cid w exp key"

fun jwt_decode :: "json \<Rightarrow> string \<Rightarrow> int \<Rightarrow> json outcome" where
  "jwt_decode (JToken cid w exp k) key t =
     (if k \<noteq> key \<or> exp < t then Raise InvalidTokenError
      else Return (JObj [(''client_id'', JStr cid), (''workspace'', JStr w), (''exp'', JNum exp)]))"
| "jwt_decode v key t = Raise InvalidTokenError"

section \<open>Built-in message handlers\<close>

text \<open>A handler gets the fuel, the client (its id), the envelope and the state.\<close>

type_synonym handler = "nat \<Rightarrow> string \<Rightarrow> json \<Rightarrow> state \<Rightarrow> unit io"

text \<open>\<^verbatim>\<open>client.authenticated = True; client.permissions = {'read', 'write', 'execute'}\<close>.\<close>

definition default_permissions :: "string dlist" where
  "default_permissions =
     Dlist.insert ''read'' (Dlist.insert ''write'' (Dlist.insert ''execute'' Dlist.empty))"

definition grant :: "string \<Rightarrow> state \<Rightarrow> state" where
  "grant c s =
     s\<lparr>heap := (heap s)(c := (heap s c)\<lparr>authenticated := True, permissions := default_permissions\<rparr>)\<rparr>"

definition permissions_json :: "string \<Rightarrow> state \<Rightarrow> json" where
  "permissions_json c s = JArr (map JStr (list_of_dlist (permissions (heap s c))))"

text \<open>The token \<^verbatim>\<open>_handle_auth\<close> issues: the payload with \<^verbatim>\<open>exp = time.time() + 86400\<close>,
  encoded under the server's secret key.\<close>

definition issue_token :: "string \<Rightarrow> state \<Rightarrow> json" where
  "issue_token c s = jwt_encode c (workspace (heap s c)) (now s + 86400) (secret_key s)"

definition handle_auth :: handler where
  "handle_auth n c data s =
     (case dict_get data ''token'' of
        Raise e \<Rightarrow> Some (Raise e, s)
      | Return token \<Rightarrow>
          if \<not> truthy token then
            (let tok = issue_token c s;
                 s1 = grant c s;
                 s2 = room_add (JStr (workspace (heap s1 c))) c s1
             in and_then
                  (send_to_client n c
                     (JObj [(''type'', JStr ''auth_success''), (''token'', tok),
                            (''permissions'', permissions_json c s2)]) s2)
                  (\<lambda>u s3. send_to_workspace n (workspace (heap s3 c))
                     (JObj [(''type'', JStr ''user_joined''), (''client_id'', JStr c),
                            (''timestamp'', JTime (now s3))])
                     (Some c) s3))
          else
            (case jwt_decode token (secret_key s) (now s) of
               Raise e \<Rightarrow>
                 if e = InvalidTokenError then send_error n c ''Invalid token'' s
                 else Some (Raise e, s)
             | Return payload \<Rightarrow>
                 (let s1 = grant c s;
                      s2 = room_add (JStr (workspace (heap s1 c))) c s1
                  in send_to_client n c
                       (JObj [(''type'', JStr ''auth_success''),
                              (''permissions'', permissions_json c s2)]) s2)))"

definition handle_logout :: handler where
  "handle_logout n c data s =
     (let s1 = s\<lparr>heap := (heap s)(c := (heap s c)\<lparr>authenticated := False, permissions := Dlist.empty\<rparr>)\<rparr>
      in send_to_client n c (JObj [(''type'', JStr ''logout_success'')]) s1)"

definition handle_ping :: handler where
  "handle_ping n c data s =
     send_to_client n c (JObj [(''type'', JStr ''pong''), (''timestamp'', JTime (now s))]) s"

definition handle_subscribe :: handler where
  "handle_subscribe n c data s =
     (case dict_get data ''channel'' of
        Raise e \<Rightarrow> Some (Raise e, s)
      | Return channel \<Rightarrow>
          if truthy channel then
            (if \<not> hashable channel then Some (Raise TypeError, s)
             else send_to_client n c
                    (JObj [(''type'', JStr ''subscribed''), (''channel'', channel)])
                    (room_add (dict_key channel) c s))
          else Some (Return (), s))"

definition handle_unsubscribe :: handler where
  "handle_unsubscribe n c data s =
     (case dict_get data ''channel'' of
        Raise e \<Rightarrow> Some (Raise e, s)
      | Return channel \<Rightarrow>
          if truthy channel then
            (if \<not> hashable channel then Some (Raise TypeError, s)
             else send_to_client n c
                    (JObj [(''type'', JStr ''unsubscribed''), (''channel'', channel)])
                    (room_discard (dict_key channel) c s))
          else Some (Return (), s))"

text \<open>
  The two external collaborators are parameters: a collaborator gets the connection and the
  raw envelope. Each call is recorded in the trace before the collaborator runs.
\<close>

type_synonym collaborator = "nat \<Rightarrow> json \<Rightarrow> state \<Rightarrow> unit io"

definition handle_file_operation :: "collaborator \<Rightarrow> handler" where
  "handle_file_operation handle_file_operation_request n c data s =
     handle_file_operation_request (websocket (heap s c)) data
       (s\<lparr>trace := trace s @ [FileOperationRequest (websocket (heap s c)) data]\<rparr>)"

definition handle_deployment :: "collaborator \<Rightarrow> handler" where
  "handle_deployment handle_deployment_request n c data s =
     handle_deployment_request (websocket (heap s c)) data
       (s\<lparr>trace := trace s @ [DeploymentRequest (websocket (heap s c)) data]\<rparr>)"

text \<open>The three collaboration handlers relay fields of the envelope to the other members
  of the sender's workspace room.\<close>

definition relay :: "string \<Rightarrow> string \<Rightarrow> handler" where
  "relay out_type field n c data s =
     (case dict_get data ''file_path'' of
        Raise e \<Rightarrow> Some (Raise e, s)
      | Return file_path \<Rightarrow>
          if truthy file_path then
            (case dict_get data field of
               Raise e \<Rightarrow> Some (Raise e, s)
             | Return v \<Rightarrow>
                 send_to_workspace n (workspace (heap s c))
                   (JObj [(''type'', JStr out_type), (''client_id'', JStr c),
                          (''file_path'', file_path), (field, v),
                          (''timestamp'', JTime (now s))])
                   (Some c) s)
          else Some (Return (), s))"

definition handle_cursor_position :: handler where
  "handle_cursor_position = relay ''cursor_update'' ''position''"

definition handle_selection_change :: handler where
  "handle_selection_change = relay ''selection_update'' ''selection''"

definition handle_document_change :: handler where
  "handle_document_change = relay ''document_change'' ''changes''"

text \<open>\<^verbatim>\<open>_handle_terminal_resize\<close> reads three fields and writes a log line.\<close>

definition handle_terminal_resize :: handler where
  "handle_terminal_resize n c data s =
     (case dict_get data ''terminal_id'' of
        Raise e \<Rightarrow> Some (Raise e, s)
      | Return terminal_id \<Rightarrow> Some (Return (), s))"

definition metrics_json :: "metrics \<Rightarrow> json" where
  "metrics_json m =
     JObj [(''messages_sent'', JNum (int (messages_sent m))),
           (''messages_received'', JNum (int (messages_received m))),
           (''errors'', JNum (int (errors m))),
           (''active_connections'', JNum (int (active_connections m))),
           (''total_connections'', JNum (int (total_connections m)))]"

definition handle_metrics :: handler where
  "handle_metrics n c data s =
     send_to_client n c
       (JObj [(''type'', JStr ''metrics''), (''metrics'', metrics_json (metrics s)),
              (''timestamp'', JTime (now s))]) s"

text \<open>
  \<^verbatim>\<open>_register_builtin_handlers\<close>: the table in registration order. The bodies of
  \<^verbatim>\<open>_handle_terminal_input\<close> (which formats an arbitrary value into a string) and of
  \<^verbatim>\<open>_handle_system_info\<close> (which reads facts of the host) are not modelled: they are
  parameters, like the two collaborators.
\<close>

record externals =
  file_operation_request :: collaborator
  deployment_request :: collaborator
  terminal_input :: handler
  system_info :: handler

definition register_builtin_handlers :: "externals \<Rightarrow> (string \<times> handler) list" where
  "register_builtin_handlers ext =
     [(''auth'', handle_auth),
      (''logout'', handle_logout),
      (''ping'', handle_ping),
      (''subscribe'', handle_subscribe),
      (''unsubscribe'', handle_unsubscribe),
      (''file_operation'', handle_file_operation (file_operation_request ext)),
      (''deployment'', handle_deployment (deployment_request ext)),
      (''cursor_position'', handle_cursor_position),
      (''selection_change'', handle_selection_change),
      (''document_change'', handle_document_change),
      (''terminal_input'', terminal_input ext),
      (''terminal_resize'', handle_terminal_resize),
      (''get_system_info'', system_info ext),
      (''get_metrics'', handle_metrics)]"

section \<open>Middleware\<close>

text \<open>A middleware gets the client and the envelope and returns the envelope to go on
  with; returning \<^verbatim>\<open>None\<close> (\<open>JNull\<close>) rejects the message.\<close>

type_synonym middleware = "nat \<Rightarrow> string \<Rightarrow> json \<Rightarrow> state \<Rightarrow> json io"

definition logging_middleware :: middleware where
  "logging_middleware n c message s =
     (case dict_get message ''type'' of
        Raise e \<Rightarrow> Some (Raise e, s)
      | Return message_type \<Rightarrow> Some (Return message, s))"

definition rate_limit_middleware :: middleware where
  "rate_limit_middleware n c message s = Some (Return message, s)"

text \<open>\<^verbatim>\<open>permission_map.get(message_type)\<close>, for a hashable \<open>message_type\<close>.\<close>

definition permission_map :: "(string \<times> string) list" where
  "permission_map =
     [(''file_operation'', ''write''), (''deployment'', ''execute''), (''terminal_input'', ''execute'')]"

fun permission_map_get :: "json \<Rightarrow> string option" where
  "permission_map_get (JStr t) = map_of permission_map t"
| "permission_map_get v = None"

definition permission_middleware :: middleware where
  "permission_middleware n c message s =
     (case dict_get message ''type'' of
        Raise e \<Rightarrow> Some (Raise e, s)
      | Return message_type \<Rightarrow>
          if \<not> hashable message_type then Some (Raise TypeError, s)
          else
            (case permission_map_get message_type of
               None \<Rightarrow> Some (Return message, s)
             | Some required_permission \<Rightarrow>
                 if required_permission \<noteq> []
                    \<and> required_permission \<notin> set (list_of_dlist (permissions (heap s c)))
                 then
                   (case ws_send (websocket (heap s c))
                           (JObj [(''type'', JStr ''error''),
                                  (''error'', JStr (''Permission denied: '' @ required_permission @ '' required''))])
                           s of
                      (Raise e, s1) \<Rightarrow> Some (Raise e, s1)
                    | (Return u, s1) \<Rightarrow> Some (Return JNull, s1))
                 else Some (Return message, s)))"

text \<open>
  The loop \<^verbatim>\<open>for middleware in self.middleware: data = await middleware(client, data)\<close>
  of \<^verbatim>\<open>handle_message\<close>. It returns \<open>Some data\<close>, the envelope left by the last stage, or
  \<open>None\<close> when a stage has returned \<^verbatim>\<open>None\<close> and \<^verbatim>\<open>handle_message\<close> returns at once.
\<close>

fun apply_middleware :: "middleware list \<Rightarrow> nat \<Rightarrow> string \<Rightarrow> json \<Rightarrow> state \<Rightarrow> json option io" where
  "apply_middleware [] n c data s = Some (Return (Some data), s)"
| "apply_middleware (m # ms) n c data s =
     (case m n c data s of
        None \<Rightarrow> None
      | Some (Raise e, s1) \<Rightarrow> Some (Raise e, s1)
      | Some (Return data1, s1) \<Rightarrow>
          if data1 = JNull then Some (Return None, s1)
          else apply_middleware ms n c data1 s1)"

section \<open>The dispatcher\<close>

text \<open>The server's two tables: \<^verbatim>\<open>self.middleware\<close> and \<^verbatim>\<open>self.message_handlers\<close>.\<close>

record config =
  middleware :: "middleware list"
  message_handlers :: "(string \<times> handler) list"


definition add_middleware :: "middleware \<Rightarrow> config \<Rightarrow> config" where
  "add_middleware m cfg = cfg\<lparr>middleware := middleware cfg @ [m]\<rparr>"

text \<open>\<^verbatim>\<open>self.message_handlers.get(message_type)\<close>, for a hashable \<open>message_type\<close>: the keys are
  strings.\<close>

fun message_handlers_get :: "(string \<times> handler) list \<Rightarrow> json \<Rightarrow> handler option" where
  "message_handlers_get hs (JStr t) = map_of hs t"
| "message_handlers_get hs v = None"

text \<open>
  \<^verbatim>\<open>f"{message_type}"\<close> for the values that reach the formatting (truthy and hashable):
  a string is itself, an integer its decimal digits, \<^verbatim>\<open>True\<close> its name. The symbolic
  strings, which no parsed frame holds, have no characters here.
\<close>

fun dec_nat :: "nat \<Rightarrow> string" where
  "dec_nat n =
     (if n < 10 then [''0123456789'' ! n]
      else dec_nat (n div 10) @ [''0123456789'' ! (n mod 10)])"

declare dec_nat.simps [simp del]

fun py_str :: "json \<Rightarrow> string" where
  "py_str (JStr x) = x"
| "py_str (JNum i) = (if i < 0 then ''-'' @ dec_nat (nat (- i)) else dec_nat (nat i))"
| "py_str (JBool b) = (if b then ''True'' else ''False'')"
| "py_str JNull = ''None''"
| "py_str v = []"

datatype frame = Malformed | Parsed json

text \<open>The body of the \<^verbatim>\<open>try\<close> block of \<^verbatim>\<open>handle_message\<close>; \<open>Malformed\<close> is a text that
  \<^verbatim>\<open>json.loads\<close> rejects.\<close>

definition dispatch :: "config \<Rightarrow> nat \<Rightarrow> string \<Rightarrow> frame \<Rightarrow> state \<Rightarrow> unit io" where
  "dispatch cfg n c fr s =
     (case fr of
        Malformed \<Rightarrow> Some (Raise JSONDecodeError, s)
      | Parsed data \<Rightarrow>
          (case dict_get data ''type'' of
             Raise e \<Rightarrow> Some (Raise e, s)
           | Return message_type \<Rightarrow>
               if \<not> truthy message_type then send_error n c ''Missing message type'' s
               else
                 (case apply_middleware (middleware cfg) n c data s of
                    None \<Rightarrow> None
                  | Some (Raise e, s1) \<Rightarrow> Some (Raise e, s1)
                  | Some (Return None, s1) \<Rightarrow> Some (Return (), s1)
                  | Some (Return (Some data1), s1) \<Rightarrow>
                      if message_type \<noteq> JStr ''auth'' \<and> message_type \<noteq> JStr ''ping''
                         \<and> \<not> authenticated (heap s1 c)
                      then send_error n c ''Authentication required'' s1
                      else if \<not> hashable message_type then Some (Raise TypeError, s1)
                      else
                        (case message_handlers_get (message_handlers cfg) message_type of
                           Some h \<Rightarrow> h n c data1 s1
                         | None \<Rightarrow>
                             send_error n c (''Unknown message type: '' @ py_str message_type) s1))))"

text \<open>\<^verbatim>\<open>client.last_activity = datetime.now().isoformat()\<close> and
  \<^verbatim>\<open>self.metrics['messages_received'] += 1\<close>.\<close>

definition note_activity :: "string \<Rightarrow> state \<Rightarrow> state" where
  "note_activity c s =
     s\<lparr>heap := (heap s)(c := (heap s c)\<lparr>last_activity := now s\<rparr>),
       metrics := (metrics s)\<lparr>messages_received := Suc (messages_received (metrics s))\<rparr>\<rparr>"

text \<open>
  \<^verbatim>\<open>handle_message\<close>: the guard on the registry, the bookkeeping, the \<^verbatim>\<open>try\<close> block and its two
  \<^verbatim>\<open>except\<close> clauses, \<^verbatim>\<open>json.JSONDecodeError\<close> first, then \<^verbatim>\<open>Exception\<close>.
\<close>

definition handle_message :: "config \<Rightarrow> nat \<Rightarrow> string \<Rightarrow> frame \<Rightarrow> state \<Rightarrow> unit io" where
  "handle_message cfg n c fr s =
     (if c \<notin> set (clients s) then Some (Return (), s)
      else
        (let s0 = note_activity c s
         in case dispatch cfg n c fr s0 of
              None \<Rightarrow> None
            | Some (Return u, s1) \<Rightarrow> Some (Return (), s1)
            | Some (Raise e, s1) \<Rightarrow>
                if e = JSONDecodeError then send_error n c ''Invalid JSON'' s1
                else if is_Exception e then
                  and_then (send_error n c ''Internal server error'' s1)
                    (\<lambda>u s2. Some (Return (), s2\<lparr>metrics := (metrics s2)\<lparr>errors := Suc (errors (metrics s2))\<rparr>\<rparr>))
                else Some (Raise e, s1)))"

section \<open>Creating the server, connecting, running\<close>

definition server_init :: "string \<Rightarrow> int \<Rightarrow> (nat \<Rightarrow> exn option) \<Rightarrow> state" where
  "server_init key t wr =
     \<lparr>clients = [],
      heap = (\<lambda>c. \<lparr>websocket = 0, workspace = [], authenticated = False, permissions = Dlist.empty,
                   metadata = [], connected_at = t, last_activity = t\<rparr>),
      rooms = [],
      metrics = \<lparr>messages_sent = 0, messages_received = 0, errors = 0,
                 active_connections = 0, total_connections = 0\<rparr>,
      secret_key = key, now = t, wire = wr, attempts = 0, trace = []\<rparr>"

text \<open>\<^verbatim>\<open>create_server\<close>: the built-in handlers and the three middleware, in this order.\<close>

definition create_server :: "externals \<Rightarrow> config" where
  "create_server ext =
     add_middleware permission_middleware
       (add_middleware rate_limit_middleware
          (add_middleware logging_middleware
             \<lparr>middleware = [], message_handlers = register_builtin_handlers ext\<rparr>))"

text \<open>\<^verbatim>\<open>path.strip('/') or 'default'\<close>.\<close>

definition strip_slashes :: "string \<Rightarrow> string" where
  "strip_slashes p =
     rev (dropWhile (\<lambda>x. x = CHR ''/'') (rev (dropWhile (\<lambda>x. x = CHR ''/'') p)))"

definition workspace_of_path :: "string \<Rightarrow> string" where
  "workspace_of_path p = (if strip_slashes p = [] then ''default'' else strip_slashes p)"

text \<open>
  The start of \<^verbatim>\<open>handle_client\<close>: the client object is made and stored under its id, and
  the two counters are set. The id \<open>c\<close> is what \<^verbatim>\<open>uuid.uuid4()\<close> gave; storing under a key
  that is there keeps the key's place.
\<close>

definition register_client :: "string \<Rightarrow> nat \<Rightarrow> string \<Rightarrow> state \<Rightarrow> state" where
  "register_client c w path s =
     (let cs = (if c \<in> set (clients s) then clients s else clients s @ [c])
      in s\<lparr>clients := cs,
           heap := (heap s)(c := \<lparr>websocket = w, workspace = workspace_of_path path,
                                  authenticated = False, permissions = Dlist.empty, metadata = [],
                                  connected_at = now s, last_activity = now s\<rparr>),
           metrics := (metrics s)\<lparr>total_connections := Suc (total_connections (metrics s)),
                                  active_connections := length cs\<rparr>\<rparr>)"

definition welcome_envelope :: "string \<Rightarrow> state \<Rightarrow> json" where
  "welcome_envelope c s =
     JObj [(''type'', JStr ''welcome''), (''client_id'', JStr c),
           (''workspace'', JStr (workspace (heap s c))), (''server_time'', JTime (now s))]"

text \<open>
  Connecting and disconnecting as operations on the server, each run to its end with fuel
  for as many nested disconnects as there are registered clients: a connect registers the
  client and sends the welcome envelope, a disconnect is \<^verbatim>\<open>disconnect_client\<close>.
\<close>

datatype operation = Connect string nat string | Disconnect string

definition run_operation :: "operation \<Rightarrow> state \<Rightarrow> unit io" where
  "run_operation op s =
     (case op of
        Connect c w path \<Rightarrow>
          (let s1 = register_client c w path s
           in send_to_client (Suc (length (clients s1))) c (welcome_envelope c s1) s1)
      | Disconnect c \<Rightarrow> disconnect_client (Suc (length (clients s))) c s)"

text \<open>A sequence of operations; the state an operation leaves is where the next one starts,
  whether the operation returned or raised.\<close>

fun run_operations :: "operation list \<Rightarrow> state \<Rightarrow> state option" where
  "run_operations [] s = Some s"
| "run_operations (op # ops) s =
     (case run_operation op s of
        None \<Rightarrow> None
      | Some (r, s1) \<Rightarrow> run_operations ops s1)"

section \<open>Notions used in the statements\<close>

text \<open>The ids that some room holds, and the registered ones among them.\<close>

definition in_rooms :: "state \<Rightarrow> string set" where
  "in_rooms s = (\<Union>(k, ms) \<in> set (rooms s). set (list_of_dlist ms))"

definition live :: "state \<Rightarrow> string set" where
  "live s = set (clients s) \<inter> in_rooms s"

text \<open>The events that are frames written to a connection.\<close>

fun is_frame :: "event \<Rightarrow> bool" where
  "is_frame (Frame w data) = True"
| "is_frame e = False"

text \<open>
  What sending and disconnecting can do to a state: the client objects, the key, the clock
  and the environment stay, the registry and the rooms only lose ids, the trace only
  grows, by frames, and the connection gauge stays equal to the size of the registry if it
  was.
\<close>

definition evolves :: "state \<Rightarrow> state \<Rightarrow> bool" where
  "evolves s s' \<longleftrightarrow>
     heap s' = heap s \<and> secret_key s' = secret_key s \<and> now s' = now s \<and> wire s' = wire s
     \<and> set (clients s') \<subseteq> set (clients s)
     \<and> in_rooms s' \<subseteq> in_rooms s
     \<and> (\<exists>es. trace s' = trace s @ es \<and> list_all is_frame es)
     \<and> (active_connections (metrics s) = length (clients s)
          \<longrightarrow> active_connections (metrics s') = length (clients s'))"

text \<open>From \<open>s\<close> to \<open>s'\<close> the trace has grown by frames only: no collaborator was called.\<close>

definition writes_frames :: "state \<Rightarrow> state \<Rightarrow> bool" where
  "writes_frames s s' \<longleftrightarrow> (\<exists>es. trace s' = trace s @ es \<and> list_all is_frame es)"

text \<open>The only exceptions that leave a send or a disconnect: those a \<^verbatim>\<open>websocket.send\<close>
  raised and \<^verbatim>\<open>except Exception\<close> does not catch.\<close>

definition escapes :: "state \<Rightarrow> unit outcome \<Rightarrow> bool" where
  "escapes s r \<longleftrightarrow>
     r = Return () \<or> (\<exists>e k. r = Raise e \<and> wire s k = Some e \<and> \<not> is_Exception e)"

text \<open>Calling \<^verbatim>\<open>send_to_client\<close> once for each id of a list, in order: what a broadcast
  to these recipients is to be.\<close>

fun deliver_to_each :: "nat \<Rightarrow> string list \<Rightarrow> json \<Rightarrow> state \<Rightarrow> unit io" where
  "deliver_to_each n [] data s = Some (Return (), s)"
| "deliver_to_each n (c # cs) data s =
     (case send_to_client n c data s of
        None \<Rightarrow> None
      | Some (Raise e, s1) \<Rightarrow> Some (Raise e, s1)
      | Some (Return u, s1) \<Rightarrow> deliver_to_each n cs data s1)"

section \<open>Concrete servers\<close>

text \<open>A connection on which every write succeeds, and one on which every write is
  cancelled.\<close>

definition reliable_wire :: "nat \<Rightarrow> exn option" where
  "reliable_wire k = None"

definition cancelled_wire :: "nat \<Rightarrow> exn option" where
  "cancelled_wire k = Some CancelledError"

definition broken_wire :: "nat \<Rightarrow> exn option" where
  "broken_wire k = Some ConnectionClosed"


text \<open>Collaborators that do nothing.\<close>

definition idle_collaborator :: collaborator where
  "idle_collaborator w data s = Some (Return (), s)"

definition idle_handler :: handler where
  "idle_handler n c data s = Some (Return (), s)"

definition idle_externals :: externals where
  "idle_externals =
     \<lparr>file_operation_request = idle_collaborator, deployment_request = idle_collaborator,
      terminal_input = idle_handler, system_info = idle_handler\<rparr>"



text \<open>A middleware that replaces every envelope by a \<^verbatim>\<open>ping\<close> envelope with a mark, and one
  that rejects, without a reply, every envelope that has no mark.\<close>

definition marking_middleware :: middleware where
  "marking_middleware n c message s =
     Some (Return (JObj [(''type'', JStr ''ping''), (''mark'', JBool True)]), s)"

definition mark_checking_middleware :: middleware where
  "mark_checking_middleware n c message s =
     (case dict_get message ''mark'' of
        Raise e \<Rightarrow> Some (Raise e, s)
      | Return mark \<Rightarrow> if truthy mark then Some (Return message, s) else Some (Return JNull, s))"

text \<open>A middleware that rejects every message without a reply.\<close>

definition rejecting_middleware :: middleware where
  "rejecting_middleware n c message s = Some (Return JNull, s)"


text \<open>One client \<open>c1\<close> on connection 7, connected to the workspace \<open>w\<close>.\<close>

definition one_client :: "(nat \<Rightarrow> exn option) \<Rightarrow> state" where
  "one_client wr = register_client ''c1'' 7 ''/w'' (server_init ''key'' 1000 wr)"

text \<open>Two clients \<open>c1\<close> and \<open>c2\<close>, connected to the workspace \<open>w\<close> and authenticated (so
  both are in the room \<open>w\<close>).\<close>

definition two_clients :: "(nat \<Rightarrow> exn option) \<Rightarrow> state" where
  "two_clients wr =
     room_add (JStr ''w'') ''c2'' (grant ''c2''
       (room_add (JStr ''w'') ''c1'' (grant ''c1''
          (register_client ''c2'' 8 ''/w'' (one_client wr)))))"

section \<open>Sending and disconnecting: what they keep, and that they end\<close>

declare send_to_client.simps [simp del] disconnect_client.simps(2) [simp del]

lemma evolves_refl [simp]: "evolves s s"
  by (simp add: evolves_def)

lemma evolves_trans: "evolves s s1 \<Longrightarrow> evolves s1 s2 \<Longrightarrow> evolves s s2"
  by (auto simp: evolves_def)

lemma in_rooms_discard_everywhere [simp]: "in_rooms (discard_everywhere c s) = in_rooms s - {c}"
  by (auto simp: in_rooms_def discard_everywhere_def)

lemma evolves_ws_send: "ws_send w d s = (r, s1) \<Longrightarrow> evolves s s1"
  by (cases "wire s (attempts s)") (auto simp: ws_send_def evolves_def in_rooms_def)

lemma evolves_sent: "evolves s (s\<lparr>metrics := (metrics s)\<lparr>messages_sent := k\<rparr>\<rparr>)"
  by (simp add: evolves_def in_rooms_def)

lemma evolves_discard: "evolves s (discard_everywhere c s)"
  by (auto simp: evolves_def) (auto simp: discard_everywhere_def)

lemma evolves_delete: "evolves s (delete_client c s)"
  by (auto simp: evolves_def delete_client_def in_rooms_def)

lemma messaging_evolves:
  "send_to_client n c d s = Some (r, s') \<Longrightarrow> evolves s s'"
  "send_to_workspace_loop n cs d ex s = Some (r, s') \<Longrightarrow> evolves s s'"
  "disconnect_client n c s = Some (r, s') \<Longrightarrow> evolves s s'"
proof (induction n c d s and n cs d ex s and n c s arbitrary: r s' and r s' and r s'
    rule: send_to_client_send_to_workspace_loop_disconnect_client.induct)
  case (1 n c data s)
  show ?case
  proof (cases "c \<in> set (clients s)")
    case False
    with 1(2) show ?thesis by (simp add: send_to_client.simps)
  next
    case True
    obtain x y where xy: "ws_send (websocket (heap s c)) data s = (x, y)"
      by (cases "ws_send (websocket (heap s c)) data s")
    have e1: "evolves s y" using xy by (rule evolves_ws_send)
    show ?thesis
    proof (cases x)
      case (Return u)
      with 1(2) True xy have "s' = y\<lparr>metrics := (metrics y)\<lparr>messages_sent := Suc (messages_sent (metrics y))\<rparr>\<rparr>"
        by (simp add: send_to_client.simps)
      then show ?thesis using e1 evolves_sent evolves_trans by metis
    next
      case (Raise e)
      show ?thesis
      proof (cases "is_Exception e")
        case True
        with 1(2) \<open>c \<in> set (clients s)\<close> xy Raise have "disconnect_client n c y = Some (r, s')"
          by (simp add: send_to_client.simps)
        then have "evolves y s'"
          using 1(1) [OF \<open>c \<in> set (clients s)\<close> xy [symmetric] Raise True] by simp
        with e1 show ?thesis by (rule evolves_trans)
      next
        case False
        with 1(2) \<open>c \<in> set (clients s)\<close> xy Raise have "s' = y"
          by (simp add: send_to_client.simps)
        with e1 show ?thesis by simp
      qed
    qed
  qed
next
  case (2 n data ex s)
  then show ?case by simp
next
  case (3 n c cs data ex s)
  show ?case
  proof (cases "Some c \<noteq> ex")
    case False
    with 3(3,4) show ?thesis by simp
  next
    case True
    show ?thesis
    proof (cases "send_to_client n c data s")
      case None
      with 3(4) True show ?thesis by simp
    next
      case (Some x2)
      obtain x y where x2: "x2 = (x, y)" by (cases x2)
      have e1: "evolves s y" using 3(1) [OF True] Some x2 by simp
      show ?thesis
      proof (cases x)
        case (Return u)
        with 3(4) True Some x2 have "send_to_workspace_loop n cs data ex y = Some (r, s')"
          by simp
        then have "evolves y s'"
          using 3(2) [OF True Some x2 [symmetric] Return] by simp
        with e1 show ?thesis by (rule evolves_trans)
      next
        case (Raise e)
        with 3(4) True Some x2 have "s' = y" by simp
        with e1 show ?thesis by simp
      qed
    qed
  qed
next
  case (4 c s)
  then show ?case by (simp split: if_splits)
next
  case (5 n c s)
  show ?case
  proof (cases "c \<in> set (clients s)")
    case False
    with 5(2) show ?thesis by (simp add: disconnect_client.simps)
  next
    case True
    define s1 where "s1 = discard_everywhere c s"
    define w where "w = workspace (heap s c)"
    define mid where "mid = (if w \<noteq> [] then send_to_workspace_loop n (room_members w s1) (user_left c s1) (Some c) s1
               else Some (Return (), s1))"
    have e1: "evolves s s1" unfolding s1_def by (rule evolves_discard)
    have unf: "disconnect_client (Suc n) c s =
       (case mid of None \<Rightarrow> None | Some (Return u, s2) \<Rightarrow>
               if c \<in> set (clients s2)
               then Some (Return (), delete_client c s2)
               else Some (Raise KeyError, s2)
           | Some (Raise e, s2) \<Rightarrow> Some (Raise e, s2))"
      using True by (simp add: disconnect_client.simps mid_def s1_def w_def Let_def)
    show ?thesis
    proof (cases mid)
      case None
      with 5(2) unf show ?thesis by simp
    next
      case (Some p)
      obtain x s2 where p: "p = (x, s2)" by (cases p)
      have e2: "evolves s1 s2"
      proof (cases "w \<noteq> []")
        case True
        then have "send_to_workspace_loop n (room_members w s1) (user_left c s1) (Some c) s1 = Some (x, s2)"
          using Some p by (simp add: mid_def)
        then show ?thesis
          using 5(1) [OF _ s1_def w_def True] \<open>c \<in> set (clients s)\<close> by simp
      next
        case False
        then show ?thesis using Some p by (simp add: mid_def)
      qed
      have e12: "evolves s s2" using e1 e2 by (rule evolves_trans)
      show ?thesis
      proof (cases x)
        case (Return u)
        with 5(2) unf Some p have "s' = delete_client c s2 \<or> s' = s2"
          by (simp split: if_splits)
        then show ?thesis using e12 evolves_delete evolves_trans by blast
      next
        case (Raise e)
        with 5(2) unf Some p have "s' = s2" by simp
        with e12 show ?thesis by simp
      qed
    qed
  qed
qed


lemma send_to_client_unregistered:
  "c \<notin> set (clients s) \<Longrightarrow> send_to_client n c d s = Some (Return (), s)"
  by (simp add: send_to_client.simps)

lemma send_to_client_written:
  "c \<in> set (clients s) \<Longrightarrow> wire s (attempts s) = None \<Longrightarrow>
   send_to_client n c d s =
     Some (Return (), s\<lparr>attempts := Suc (attempts s),
                         trace := trace s @ [Frame (websocket (heap s c)) d],
                         metrics := (metrics s)\<lparr>messages_sent := Suc (messages_sent (metrics s))\<rparr>\<rparr>)"
  by (simp add: send_to_client.simps ws_send_def)

lemma send_to_client_failed:
  "c \<in> set (clients s) \<Longrightarrow> wire s (attempts s) = Some e \<Longrightarrow> is_Exception e \<Longrightarrow>
   send_to_client n c d s = disconnect_client n c (s\<lparr>attempts := Suc (attempts s)\<rparr>)"
  by (simp add: send_to_client.simps ws_send_def)

lemma send_to_client_escaped:
  "c \<in> set (clients s) \<Longrightarrow> wire s (attempts s) = Some e \<Longrightarrow> \<not> is_Exception e \<Longrightarrow>
   send_to_client n c d s = Some (Raise e, s\<lparr>attempts := Suc (attempts s)\<rparr>)"
  by (simp add: send_to_client.simps ws_send_def)

lemma live_attempts [simp]: "live (s\<lparr>attempts := k\<rparr>) = live s" "in_rooms (s\<lparr>attempts := k\<rparr>) = in_rooms s"
  by (simp_all add: live_def in_rooms_def)

lemma live_discard_everywhere [simp]: "live (discard_everywhere c s) = live s - {c}"
  by (auto simp: live_def) (auto simp: discard_everywhere_def)

lemma clients_discard_everywhere [simp]: "clients (discard_everywhere c s) = clients s"
   "wire (discard_everywhere c s) = wire s"
  by (simp_all add: discard_everywhere_def)

lemma room_members_in_rooms: "set (room_members w s) \<subseteq> in_rooms s"
proof
  fix x assume "x \<in> set (room_members w s)"
  then obtain ms where "map_of (rooms s) (JStr w) = Some ms" "x \<in> set (list_of_dlist ms)"
    by (cases "map_of (rooms s) (JStr w)") (auto simp: room_members_def)
  then have "(JStr w, ms) \<in> set (rooms s)" "x \<in> set (list_of_dlist ms)"
    by (auto dest: map_of_SomeD)
  then show "x \<in> in_rooms s" unfolding in_rooms_def by blast
qed

lemma finite_live [simp]: "finite (live s)"
  by (simp add: live_def)

lemma evolves_live: "evolves s s' \<Longrightarrow> live s' \<subseteq> live s"
  by (auto simp: evolves_def live_def)

lemma card_live_mono: "evolves s s' \<Longrightarrow> card (live s' - {c}) \<le> card (live s - {c})"
  by (rule card_mono) (use evolves_live in auto)

lemma escapes_evolves: "evolves s s' \<Longrightarrow> escapes s' r \<Longrightarrow> escapes s r"
  by (auto simp: evolves_def escapes_def)

lemma messaging_total:
  "card (live s - {c}) < n \<Longrightarrow>
     \<exists>r s'. send_to_client n c d s = Some (r, s') \<and> escapes s r
       \<and> set (clients s) - set (clients s') \<subseteq> insert c (in_rooms s)"
  "(\<forall>c \<in> set cs. c \<in> set (clients s) \<longrightarrow> card (live s - {c}) < n) \<Longrightarrow>
     \<exists>r s'. send_to_workspace_loop n cs d ex s = Some (r, s') \<and> escapes s r
       \<and> set (clients s) - set (clients s') \<subseteq> set cs \<union> in_rooms s"
  "card (live s - {c}) < n \<Longrightarrow>
     \<exists>r s'. disconnect_client n c s = Some (r, s') \<and> escapes s r
       \<and> set (clients s) - set (clients s') \<subseteq> insert c (in_rooms s)
       \<and> (r = Return () \<longrightarrow> c \<notin> set (clients s'))
       \<and> (c \<in> set (clients s) \<longrightarrow> c \<notin> in_rooms s')"
proof (induction n c d s and n cs d ex s and n c s
    rule: send_to_client_send_to_workspace_loop_disconnect_client.induct)
  case (1 n c data s)
  show ?case
  proof (cases "c \<in> set (clients s)")
    case False
    then show ?thesis by (simp add: send_to_client_unregistered escapes_def)
  next
    case True
    show ?thesis
    proof (cases "wire s (attempts s)")
      case None
      then show ?thesis using True by (simp add: send_to_client_written escapes_def)
    next
      case (Some e)
      let ?y = "s\<lparr>attempts := Suc (attempts s)\<rparr>"
      have ws: "(Raise e, ?y) = ws_send (websocket (heap s c)) data s"
        using Some by (simp add: ws_send_def)
      show ?thesis
      proof (cases "is_Exception e")
        case False
        then show ?thesis using True Some
          by (auto simp: send_to_client_escaped escapes_def)
      next
        case exc: True
        have "card (live ?y - {c}) < n" using 1(2) by simp
        from 1(1) [OF True ws refl exc this]
        obtain r s' where d: "disconnect_client n c ?y = Some (r, s')" and e: "escapes ?y r"
          and rem: "set (clients ?y) - set (clients s') \<subseteq> insert c (in_rooms ?y)"
          by blast
        have "escapes s r" using e by (simp add: escapes_def)
        then show ?thesis using d rem True Some exc
          by (simp add: send_to_client_failed)
      qed
    qed
  qed
next
  case (2 n data ex s)
  then show ?case by (simp add: escapes_def)
next
  case (3 n c cs data ex s)
  show ?case
  proof (cases "Some c \<noteq> ex")
    case False
    have "\<forall>c\<in>set cs. c \<in> set (clients s) \<longrightarrow> card (live s - {c}) < n"
      using 3(4) by simp
    from 3(3) [OF False this] show ?thesis using False by auto
  next
    case True
    have pre: "card (live s - {c}) < n" if "c \<in> set (clients s)"
      using 3(4) that by simp
    have "\<exists>r s'. send_to_client n c data s = Some (r, s') \<and> escapes s r
       \<and> set (clients s) - set (clients s') \<subseteq> insert c (in_rooms s)"
    proof (cases "c \<in> set (clients s)")
      case True
      then show ?thesis using 3(1) [OF \<open>Some c \<noteq> ex\<close>] pre by blast
    next
      case False
      then show ?thesis by (simp add: send_to_client_unregistered escapes_def)
    qed
    then obtain x y where sc: "send_to_client n c data s = Some (x, y)" and ex: "escapes s x"
      and rem: "set (clients s) - set (clients y) \<subseteq> insert c (in_rooms s)"
      by blast
    have ev: "evolves s y" using sc by (rule messaging_evolves(1))
    show ?thesis
    proof (cases x)
      case (Raise e)
      then show ?thesis using True sc ex rem by auto
    next
      case (Return u)
      have pre2: "\<forall>c\<in>set cs. c \<in> set (clients y) \<longrightarrow> card (live y - {c}) < n"
      proof (intro ballI impI)
        fix c' assume "c' \<in> set cs" "c' \<in> set (clients y)"
        then have "c' \<in> set (clients s)" using ev by (auto simp: evolves_def)
        then have "card (live s - {c'}) < n" using 3(4) \<open>c' \<in> set cs\<close> by simp
        then show "card (live y - {c'}) < n"
          using card_live_mono [OF ev, of c'] by simp
      qed
      from 3(2) [OF True sc refl Return pre2]
      obtain r s' where lp: "send_to_workspace_loop n cs data ex y = Some (r, s')"
        and e2: "escapes y r"
        and rem2: "set (clients y) - set (clients s') \<subseteq> set cs \<union> in_rooms y"
        by blast
      have "escapes s r" using ev e2 by (rule escapes_evolves)
      moreover have "in_rooms y \<subseteq> in_rooms s" using ev by (simp add: evolves_def)
      ultimately show ?thesis using True sc Return lp rem rem2 by auto
    qed
  qed
next
  case (4 c s)
  then show ?case by (auto simp: escapes_def)
next
  case (5 n c s)
  show ?case
  proof (cases "c \<in> set (clients s)")
    case False
    then show ?thesis by (simp add: disconnect_client.simps escapes_def)
  next
    case True
    define s1 where "s1 = discard_everywhere c s"
    define w where "w = workspace (heap s c)"
    define mid where "mid = (if w \<noteq> [] then send_to_workspace_loop n (room_members w s1) (user_left c s1) (Some c) s1
               else Some (Return (), s1))"
    have unf: "disconnect_client (Suc n) c s =
       (case mid of None \<Rightarrow> None | Some (Return u, s2) \<Rightarrow>
               if c \<in> set (clients s2)
               then Some (Return (), delete_client c s2)
               else Some (Raise KeyError, s2)
           | Some (Raise e, s2) \<Rightarrow> Some (Raise e, s2))"
      using True by (simp add: disconnect_client.simps mid_def s1_def w_def Let_def)
    have c1: "card (live s1) \<le> n" using 5(2) by (simp add: s1_def)
    have nin: "c \<notin> in_rooms s1" by (simp add: s1_def)
    have "\<exists>x s2. mid = Some (x, s2) \<and> escapes s1 x
        \<and> set (clients s1) - set (clients s2) \<subseteq> in_rooms s1 \<and> evolves s1 s2"
    proof (cases "w \<noteq> []")
      case False
      then show ?thesis by (simp add: mid_def escapes_def)
    next
      case wt: True
      have "\<forall>c' \<in> set (room_members w s1). c' \<in> set (clients s1) \<longrightarrow> card (live s1 - {c'}) < n"
      proof (intro ballI impI)
        fix c' assume "c' \<in> set (room_members w s1)" "c' \<in> set (clients s1)"
        then have "c' \<in> live s1" using room_members_in_rooms by (auto simp: live_def)
        then have "card (live s1 - {c'}) < card (live s1)"
          by (intro card_Diff1_less) simp_all
        then show "card (live s1 - {c'}) < n" using c1 by simp
      qed
      from 5(1) [OF _ s1_def w_def wt this] True
      obtain x s2 where lp: "send_to_workspace_loop n (room_members w s1) (user_left c s1) (Some c) s1 = Some (x, s2)"
        and "escapes s1 x"
        and "set (clients s1) - set (clients s2) \<subseteq> set (room_members w s1) \<union> in_rooms s1"
        by blast
      moreover have "evolves s1 s2" using lp by (rule messaging_evolves(2))
      ultimately show ?thesis using wt room_members_in_rooms [of w s1] by (auto simp: mid_def)
    qed
    then obtain x s2 where m: "mid = Some (x, s2)" and e1: "escapes s1 x"
      and rem: "set (clients s1) - set (clients s2) \<subseteq> in_rooms s1" and ev: "evolves s1 s2"
      by blast
    have cin: "c \<in> set (clients s2)" using rem nin True by (auto simp: s1_def)
    have es: "escapes s x" using e1 by (simp add: escapes_def s1_def)
    have nin2: "c \<notin> in_rooms s2" using ev nin by (auto simp: evolves_def)
    have sub: "set (clients s) - set (clients s2) \<subseteq> insert c (in_rooms s)"
      using rem by (auto simp: s1_def)
    show ?thesis
    proof (cases x)
      case (Raise e)
      then show ?thesis using unf m es nin2 sub by simp
    next
      case (Return u)
      then have "disconnect_client (Suc n) c s = Some (Return (), delete_client c s2)"
        using unf m cin by simp
      moreover have "c \<notin> in_rooms (delete_client c s2)" using nin2
        by (simp add: in_rooms_def delete_client_def)
      moreover have "set (clients s) - set (clients (delete_client c s2)) \<subseteq> insert c (in_rooms s)"
        using sub by (auto simp: delete_client_def)
      ultimately show ?thesis by (simp add: escapes_def delete_client_def)
    qed
  qed
qed


section \<open>Facts about the concrete servers and the built-in tables\<close>

lemma one_client_simps:
  "clients (one_client wr) = [''c1'']"
  "wire (one_client wr) = wr"
  "attempts (one_client wr) = 0"
  "trace (one_client wr) = []"
  "rooms (one_client wr) = []"
  "now (one_client wr) = 1000"
  "secret_key (one_client wr) = ''key''"
  "heap (one_client wr) ''c1'' = \<lparr>websocket = 7, workspace = ''w'', authenticated = False,
      permissions = Dlist.empty, metadata = [], connected_at = 1000, last_activity = 1000\<rparr>"
  "metrics (one_client wr) = \<lparr>messages_sent = 0, messages_received = 0, errors = 0,
      active_connections = 1, total_connections = 1\<rparr>"
  by (simp_all add: one_client_def register_client_def server_init_def workspace_of_path_def
      strip_slashes_def)

lemma two_clients_simps:
  "clients (two_clients wr) = [''c1'', ''c2'']"
  "wire (two_clients wr) = wr"
  "attempts (two_clients wr) = 0"
  "trace (two_clients wr) = []"
  "now (two_clients wr) = 1000"
  "secret_key (two_clients wr) = ''key''"
  "heap (two_clients wr) ''c1'' = \<lparr>websocket = 7, workspace = ''w'', authenticated = True,
      permissions = default_permissions, metadata = [], connected_at = 1000, last_activity = 1000\<rparr>"
  "heap (two_clients wr) ''c2'' = \<lparr>websocket = 8, workspace = ''w'', authenticated = True,
      permissions = default_permissions, metadata = [], connected_at = 1000, last_activity = 1000\<rparr>"
  "metrics (two_clients wr) = \<lparr>messages_sent = 0, messages_received = 0, errors = 0,
      active_connections = 2, total_connections = 2\<rparr>"
  by (simp_all add: two_clients_def one_client_def register_client_def server_init_def
      workspace_of_path_def strip_slashes_def room_add_def grant_def)

lemma two_clients_rooms:
  "map_of (rooms (two_clients wr)) (JStr ''w'') = Some (Dlist.insert ''c2'' (Dlist.insert ''c1'' Dlist.empty))"
  by (simp add: two_clients_def one_client_def register_client_def server_init_def
      room_add_def grant_def room_lookup_def)

lemma apply_builtin_middleware_pass:
  assumes "dict_get data ''type'' = Return (JStr t)" "map_of permission_map t = None"
  shows "apply_middleware (middleware (create_server ext)) n c data s = Some (Return (Some data), s)"
proof -
  obtain kvs where d: "data = JObj kvs" using assms(1) by (cases data) auto
  have nn: "data \<noteq> JNull" using d by simp
  show ?thesis using assms nn
    by (simp add: create_server_def add_middleware_def logging_middleware_def
        rate_limit_middleware_def permission_middleware_def)
qed

lemma builtin_handlers_get:
  "map_of (message_handlers (create_server ext)) (''subscribe'') = Some handle_subscribe"
  "map_of (message_handlers (create_server ext)) (''unsubscribe'') = Some handle_unsubscribe"
  "map_of (message_handlers (create_server ext)) (''logout'') = Some handle_logout"
  "map_of (message_handlers (create_server ext)) (''auth'') = Some handle_auth"
  "map_of (message_handlers (create_server ext)) (''file_operation'')
     = Some (handle_file_operation (file_operation_request ext))"
  by (simp_all add: create_server_def add_middleware_def register_builtin_handlers_def)

lemma dispatch_to_handler:
  assumes "dict_get data ''type'' = Return (JStr t)" and "t \<noteq> []"
    and "apply_middleware (middleware cfg) n c data s = Some (Return (Some data1), s1)"
    and "t = ''auth'' \<or> t = ''ping'' \<or> authenticated (heap s1 c)"
    and "map_of (message_handlers cfg) t = Some h"
  shows "dispatch cfg n c (Parsed data) s = h n c data1 s1"
  using assms by (auto simp: dispatch_def)

lemma card_live_le: "card (live s - {c}) \<le> length (clients s)"
proof -
  have "card (live s - {c}) \<le> card (set (clients s))"
    by (rule card_mono) (auto simp: live_def)
  also have "\<dots> \<le> length (clients s)" by (rule card_length)
  finally show ?thesis .
qed


lemma workspace_loop_total:
  assumes "length (clients s) < n"
  shows "\<exists>r s'. send_to_workspace n w d ex s = Some (r, s') \<and> evolves s s'"
proof -
  have "\<forall>c \<in> set (room_members w s). c \<in> set (clients s) \<longrightarrow> card (live s - {c}) < n"
    using assms card_live_le [of s] by (meson le_less_trans)
  from messaging_total(2) [OF this, of d ex]
  obtain r s' where l: "send_to_workspace_loop n (room_members w s) d ex s = Some (r, s')" by blast
  then have "evolves s s'" by (rule messaging_evolves(2))
  with l show ?thesis by (auto simp: send_to_workspace_def)
qed

lemma apply_middleware_append:
  "apply_middleware (ms1 @ ms2) n c d s =
     (case apply_middleware ms1 n c d s of
        Some (Return (Some d'), s') \<Rightarrow> apply_middleware ms2 n c d' s'
      | r \<Rightarrow> r)"
proof (induction ms1 arbitrary: d s)
  case Nil
  show ?case by simp
next
  case (Cons m ms1)
  show ?case
  proof (cases "m n c d s")
    case None
    then show ?thesis by simp
  next
    case (Some p)
    obtain x s1 where p: "p = (x, s1)" by (cases p)
    show ?thesis
    proof (cases x)
      case (Raise e)
      then show ?thesis using Some p by simp
    next
      case (Return d1)
      then show ?thesis using Some p Cons.IH [of d1 s1] by simp
    qed
  qed
qed

lemma loop_is_deliver_to_each:
  "send_to_workspace_loop n cs d (Some x) s = deliver_to_each n (filter (\<lambda>c. c \<noteq> x) cs) d s"
proof (induction cs arbitrary: s)
  case Nil
  show ?case by simp
next
  case (Cons c cs)
  show ?case
  proof (cases "c = x")
    case True
    then show ?thesis using Cons.IH by simp
  next
    case False
    show ?thesis
    proof (cases "send_to_client n c d s")
      case None
      then show ?thesis using False by simp
    next
      case (Some p)
      obtain r s1 where p: "p = (r, s1)" by (cases p)
      show ?thesis using False Some p Cons.IH [of s1] by (cases r) simp_all
    qed
  qed
qed

lemma distinct_room_members [simp]: "distinct (room_members w s)"
  by (simp add: room_members_def split: option.splits)

lemma length_filter_neq:
  "distinct cs \<Longrightarrow> length (filter (\<lambda>c. c \<noteq> x) cs) = (if x \<in> set cs then length cs - 1 else length cs)"
  by (induction cs) (auto dest: length_pos_if_in_set)

lemma deliver_to_each_written:
  "\<forall>k. wire s k = None \<Longrightarrow> set cs \<subseteq> set (clients s) \<Longrightarrow>
   deliver_to_each n cs d s =
     Some (Return (), s\<lparr>attempts := attempts s + length cs,
                         trace := trace s @ map (\<lambda>c. Frame (websocket (heap s c)) d) cs,
                         metrics := (metrics s)\<lparr>messages_sent := messages_sent (metrics s) + length cs\<rparr>\<rparr>)"
proof (induction cs arbitrary: s)
  case Nil
  show ?case by simp
next
  case (Cons c cs)
  let ?s1 = "s\<lparr>attempts := Suc (attempts s),
                trace := trace s @ [Frame (websocket (heap s c)) d],
                metrics := (metrics s)\<lparr>messages_sent := Suc (messages_sent (metrics s))\<rparr>\<rparr>"
  have 1: "send_to_client n c d s = Some (Return (), ?s1)"
    using Cons.prems by (simp add: send_to_client_written)
  have 2: "\<forall>k. wire ?s1 k = None" "set cs \<subseteq> set (clients ?s1)"
    using Cons.prems by simp_all
  show ?case using 1 Cons.IH [OF 2] by simp
qed

lemma apply_builtin_middleware_file_operation:
  assumes "dict_get data ''type'' = Return (JStr ''file_operation'')"
  shows "apply_middleware (middleware (create_server ext)) n c data s =
     (if ''write'' \<in> set (list_of_dlist (permissions (heap s c))) then Some (Return (Some data), s)
      else (case ws_send (websocket (heap s c))
                   (JObj [(''type'', JStr ''error''),
                          (''error'', JStr ''Permission denied: write required'')]) s of
              (Raise e, s1) \<Rightarrow> Some (Raise e, s1)
            | (Return u, s1) \<Rightarrow> Some (Return None, s1)))"
proof -
  obtain kvs where d: "data = JObj kvs" using assms by (cases data) auto
  obtain x y where w: "ws_send (websocket (heap s c))
                   (JObj [(''type'', JStr ''error''),
                          (''error'', JStr ''Permission denied: write required'')]) s = (x, y)"
    by (cases "ws_send (websocket (heap s c))
                   (JObj [(''type'', JStr ''error''),
                          (''error'', JStr ''Permission denied: write required'')]) s")
  show ?thesis using assms d w
    by (cases x)
      (simp_all add: create_server_def add_middleware_def logging_middleware_def
        rate_limit_middleware_def permission_middleware_def permission_map_def)
qed

lemma builtin_file_operation_unauthenticated:
  assumes "c \<in> set (clients s)" and "\<not> authenticated (heap s c)"
    and "dict_get data ''type'' = Return (JStr ''file_operation'')"
    and "wire s (attempts s) = None"
  shows "handle_message (create_server ext) n c (Parsed data) s =
     Some (Return (),
       if ''write'' \<in> set (list_of_dlist (permissions (heap s c)))
       then (note_activity c s)
              \<lparr>attempts := Suc (attempts s),
               trace := trace s @ [Frame (websocket (heap s c)) (error_envelope ''Authentication required'' s)],
               metrics := (metrics (note_activity c s))\<lparr>messages_sent := Suc (messages_sent (metrics s))\<rparr>\<rparr>
       else (note_activity c s)
              \<lparr>attempts := Suc (attempts s),
               trace := trace s @ [Frame (websocket (heap s c))
                 (JObj [(''type'', JStr ''error''),
                        (''error'', JStr ''Permission denied: write required'')])]\<rparr>)"
proof -
  let ?s0 = "note_activity c s"
  have reg: "c \<in> set (clients ?s0)" using assms(1) by (simp add: note_activity_def)
  have wr: "wire ?s0 (attempts ?s0) = None" using assms(4) by (simp add: note_activity_def)
  have na: "\<not> authenticated (heap ?s0 c)" using assms(2) by (simp add: note_activity_def)
  have pm: "permissions (heap ?s0 c) = permissions (heap s c)" by (simp add: note_activity_def)
  show ?thesis
  proof (cases "''write'' \<in> set (list_of_dlist (permissions (heap s c)))")
    case True
    have mw: "apply_middleware (middleware (create_server ext)) n c data ?s0 = Some (Return (Some data), ?s0)"
      using True pm by (simp add: apply_builtin_middleware_file_operation [OF assms(3)])
    have "dispatch (create_server ext) n c (Parsed data) ?s0 = send_error n c ''Authentication required'' ?s0"
      using assms(3) mw na by (simp add: dispatch_def)
    also have "\<dots> = Some (Return (), ?s0
              \<lparr>attempts := Suc (attempts s),
               trace := trace s @ [Frame (websocket (heap s c)) (error_envelope ''Authentication required'' s)],
               metrics := (metrics ?s0)\<lparr>messages_sent := Suc (messages_sent (metrics s))\<rparr>\<rparr>)"
      using reg wr
      by (simp add: send_error_def send_to_client_written) (simp add: note_activity_def error_envelope_def)
    finally show ?thesis using True assms(1) by (simp add: handle_message_def)
  next
    case False
    have mw: "apply_middleware (middleware (create_server ext)) n c data ?s0 =
        Some (Return None, ?s0\<lparr>attempts := Suc (attempts s),
               trace := trace s @ [Frame (websocket (heap s c))
                 (JObj [(''type'', JStr ''error''),
                        (''error'', JStr ''Permission denied: write required'')])]\<rparr>)"
      using False pm wr
      by (simp add: apply_builtin_middleware_file_operation [OF assms(3)] ws_send_def)
         (simp add: note_activity_def)
    have "dispatch (create_server ext) n c (Parsed data) ?s0 =
        Some (Return (), ?s0\<lparr>attempts := Suc (attempts s),
               trace := trace s @ [Frame (websocket (heap s c))
                 (JObj [(''type'', JStr ''error''),
                        (''error'', JStr ''Permission denied: write required'')])]\<rparr>)"
      using assms(3) mw by (simp add: dispatch_def)
    then show ?thesis using False assms(1) by (simp add: handle_message_def)
  qed
qed





lemma grant_simps:
  "clients (grant c s) = clients s" "rooms (grant c s) = rooms s" "wire (grant c s) = wire s"
  "attempts (grant c s) = attempts s" "trace (grant c s) = trace s" "now (grant c s) = now s"
  "metrics (grant c s) = metrics s" "secret_key (grant c s) = secret_key s"
  "heap (grant c s) c = (heap s c)\<lparr>authenticated := True, permissions := default_permissions\<rparr>"
  by (simp_all add: grant_def)

lemma room_add_simps:
  "clients (room_add k c s) = clients s" "heap (room_add k c s) = heap s"
  "wire (room_add k c s) = wire s" "attempts (room_add k c s) = attempts s"
  "trace (room_add k c s) = trace s" "now (room_add k c s) = now s"
  "metrics (room_add k c s) = metrics s" "secret_key (room_add k c s) = secret_key s"
  by (simp_all add: room_add_def)

lemma default_permissions_set:
  "set (list_of_dlist default_permissions) = {''read'', ''write'', ''execute''}"
  by (auto simp: default_permissions_def)

lemma run_operation_total:
  assumes "active_connections (metrics s) = length (clients s)"
  shows "\<exists>r s'. run_operation op s = Some (r, s')
           \<and> active_connections (metrics s') = length (clients s')"
proof (cases op)
  case (Connect c w path)
  let ?s1 = "register_client c w path s"
  have inv1: "active_connections (metrics ?s1) = length (clients ?s1)"
    by (simp add: register_client_def Let_def)
  have "card (live ?s1 - {c}) < Suc (length (clients ?s1))"
    using card_live_le [of ?s1 c] by simp
  from messaging_total(1) [OF this, of "welcome_envelope c ?s1"]
  obtain r s' where r: "send_to_client (Suc (length (clients ?s1))) c (welcome_envelope c ?s1) ?s1 = Some (r, s')"
    by blast
  then have "evolves ?s1 s'" by (rule messaging_evolves(1))
  with inv1 have "active_connections (metrics s') = length (clients s')"
    by (simp add: evolves_def)
  with r Connect show ?thesis by (simp add: run_operation_def Let_def)
next
  case (Disconnect c)
  have "card (live s - {c}) < Suc (length (clients s))"
    using card_live_le [of s c] by simp
  from messaging_total(3) [OF this]
  obtain r s' where r: "disconnect_client (Suc (length (clients s))) c s = Some (r, s')"
    by blast
  then have "evolves s s'" by (rule messaging_evolves(3))
  with assms have "active_connections (metrics s') = length (clients s')"
    by (simp add: evolves_def)
  with r Disconnect show ?thesis by (simp add: run_operation_def)
qed

lemma run_operations_total:
  "active_connections (metrics s) = length (clients s) \<Longrightarrow>
   \<exists>s'. run_operations ops s = Some s' \<and> active_connections (metrics s') = length (clients s')"
proof (induction ops arbitrary: s)
  case Nil
  then show ?case by simp
next
  case (Cons op ops)
  from run_operation_total [OF Cons.prems, of op]
  obtain r s1 where 1: "run_operation op s = Some (r, s1)"
    and 2: "active_connections (metrics s1) = length (clients s1)" by blast
  from Cons.IH [OF 2] 1 show ?case by simp
qed

lemma two_clients_rooms_list:
  "rooms (two_clients wr) = [(JStr ''w'', Dlist.insert ''c2'' (Dlist.insert ''c1'' Dlist.empty))]"
  by (simp add: two_clients_def one_client_def register_client_def server_init_def
      room_add_def grant_def room_lookup_def)

lemma two_clients_after_discard:
  "room_members ''w'' (discard_everywhere ''c1'' (two_clients wr)) = [''c2'']"
  "clients (discard_everywhere ''c1'' (two_clients wr)) = [''c1'', ''c2'']"
  "wire (discard_everywhere ''c1'' (two_clients wr)) = wr"
  "attempts (discard_everywhere ''c1'' (two_clients wr)) = 0"
  "heap (discard_everywhere ''c1'' (two_clients wr)) = heap (two_clients wr)"
  by (simp_all add: room_members_def discard_everywhere_def two_clients_rooms_list two_clients_simps)

lemma disconnect_client_interrupted:
  assumes "c \<in> set (clients s)" and "workspace (heap s c) \<noteq> []"
    and "send_to_workspace_loop n (room_members (workspace (heap s c)) (discard_everywhere c s))
           (user_left c (discard_everywhere c s)) (Some c) (discard_everywhere c s)
         = Some (Raise e, s2)"
  shows "disconnect_client (Suc n) c s = Some (Raise e, s2)"
  using assms by (simp add: disconnect_client.simps(2) Let_def)

lemma writes_frames_refl [simp]: "writes_frames s s"
  by (simp add: writes_frames_def)

lemma writes_frames_trans: "writes_frames s s1 \<Longrightarrow> writes_frames s1 s2 \<Longrightarrow> writes_frames s s2"
  by (auto simp: writes_frames_def)

lemma evolves_writes_frames: "evolves s s' \<Longrightarrow> writes_frames s s'"
  by (simp add: evolves_def writes_frames_def)

lemma writes_frames_same_trace: "trace s' = trace s \<Longrightarrow> writes_frames s s'"
  by (simp add: writes_frames_def)

lemma card_live_evolves: "evolves s s' \<Longrightarrow> card (live s') \<le> card (live s)"
  by (rule card_mono) (use evolves_live in auto)

lemma send_error_total:
  assumes "card (live s) < n"
  shows "\<exists>r s'. send_error n c msg s = Some (r, s') \<and> evolves s s'"
proof -
  have "card (live s - {c}) \<le> card (live s)" by (rule card_mono) auto
  then have "card (live s - {c}) < n" using assms by simp
  from messaging_total(1) [OF this, of "error_envelope msg s"]
  obtain r s' where l: "send_to_client n c (error_envelope msg s) s = Some (r, s')" by blast
  then have "evolves s s'" by (rule messaging_evolves(1))
  with l show ?thesis by (auto simp: send_error_def)
qed

lemma send_error_evolves: "send_error n c msg s = Some (r, s') \<Longrightarrow> evolves s s'"
  unfolding send_error_def by (rule messaging_evolves(1))

lemma handle_message_ends:
  assumes "dispatch cfg n c fr (note_activity c s) = Some (r1, s1)" and "card (live s1) < n"
  shows "\<exists>r s'. handle_message cfg n c fr s = Some (r, s')"
proof (cases "c \<in> set (clients s)")
  case False
  then show ?thesis by (simp add: handle_message_def)
next
  case True
  show ?thesis
  proof (cases r1)
    case (Return u)
    then show ?thesis using True assms(1) by (simp add: handle_message_def)
  next
    case (Raise e)
    obtain ra sa where a: "send_error n c ''Invalid JSON'' s1 = Some (ra, sa)"
      using send_error_total [OF assms(2)] by blast
    obtain rb sb where b: "send_error n c ''Internal server error'' s1 = Some (rb, sb)"
      using send_error_total [OF assms(2)] by blast
    show ?thesis using True assms(1) Raise a b
      by (cases rb) (simp_all add: handle_message_def and_then_def)
  qed
qed

lemma handle_message_writes_frames:
  assumes "dispatch cfg n c fr (note_activity c s) = Some (r1, s1)"
    and "writes_frames (note_activity c s) s1"
    and "handle_message cfg n c fr s = Some (r, s')"
  shows "writes_frames s s'"
proof (cases "c \<in> set (clients s)")
  case False
  then show ?thesis using assms(3) by (simp add: handle_message_def)
next
  case True
  have 0: "writes_frames s (note_activity c s)"
    by (rule writes_frames_same_trace) (simp add: note_activity_def)
  have 1: "writes_frames s s1" using 0 assms(2) by (rule writes_frames_trans)
  show ?thesis
  proof (cases r1)
    case (Return u)
    then have "s' = s1" using True assms(1,3) by (simp add: handle_message_def)
    then show ?thesis using 1 by simp
  next
    case (Raise e)
    show ?thesis
    proof (cases "e = JSONDecodeError")
      case True
      then have "send_error n c ''Invalid JSON'' s1 = Some (r, s')"
        using \<open>c \<in> set (clients s)\<close> assms(1,3) Raise by (simp add: handle_message_def)
      then have "writes_frames s1 s'" by (intro evolves_writes_frames send_error_evolves)
      with 1 show ?thesis by (rule writes_frames_trans)
    next
      case nj: False
      show ?thesis
      proof (cases "is_Exception e")
        case False
        then have "s' = s1" using \<open>c \<in> set (clients s)\<close> assms(1,3) Raise nj
          by (simp add: handle_message_def)
        then show ?thesis using 1 by simp
      next
        case True
        then have am: "and_then (send_error n c ''Internal server error'' s1)
            (\<lambda>u s2. Some (Return (), s2\<lparr>metrics := (metrics s2)\<lparr>errors := Suc (errors (metrics s2))\<rparr>\<rparr>))
            = Some (r, s')"
          using \<open>c \<in> set (clients s)\<close> assms(1,3) Raise nj by (simp add: handle_message_def)
        then obtain rb sb where b: "send_error n c ''Internal server error'' s1 = Some (rb, sb)"
          by (cases "send_error n c ''Internal server error'' s1") (auto simp: and_then_def)
        have wb: "writes_frames s1 sb" using b by (intro evolves_writes_frames send_error_evolves)
        have "trace s' = trace sb" using am b by (cases rb) (auto simp: and_then_def)
        then have "writes_frames sb s'" by (rule writes_frames_same_trace)
        with 1 wb show ?thesis by (meson writes_frames_trans)
      qed
    qed
  qed
qed

lemma dispatch_file_operation_unauthenticated:
  assumes "\<not> authenticated (heap s c)"
    and "dict_get data ''type'' = Return (JStr ''file_operation'')"
    and "middleware cfg = middleware (create_server ext)"
  shows "dispatch cfg n c (Parsed data) s =
     (if ''write'' \<in> set (list_of_dlist (permissions (heap s c)))
      then send_error n c ''Authentication required'' s
      else (case wire s (attempts s) of
              None \<Rightarrow> Some (Return (),
                 s\<lparr>attempts := Suc (attempts s),
                   trace := trace s @ [Frame (websocket (heap s c))
                     (JObj [(''type'', JStr ''error''),
                            (''error'', JStr ''Permission denied: write required'')])]\<rparr>)
            | Some e \<Rightarrow> Some (Raise e, s\<lparr>attempts := Suc (attempts s)\<rparr>)))"
proof (cases "''write'' \<in> set (list_of_dlist (permissions (heap s c)))")
  case True
  then show ?thesis using assms
    by (simp add: dispatch_def apply_builtin_middleware_file_operation)
next
  case False
  then show ?thesis using assms
    by (cases "wire s (attempts s)")
       (simp_all add: dispatch_def apply_builtin_middleware_file_operation ws_send_def)
qed

lemma dispatch_file_operation_unauthenticated_result:
  assumes "\<not> authenticated (heap s c)"
    and "dict_get data ''type'' = Return (JStr ''file_operation'')"
    and "middleware cfg = middleware (create_server ext)"
  shows "dispatch cfg n c (Parsed data) s = Some (r1, s1) \<Longrightarrow>
           writes_frames s s1 \<and> card (live s1) \<le> card (live s)"
    and "card (live s) < n \<Longrightarrow> \<exists>r1 s1. dispatch cfg n c (Parsed data) s = Some (r1, s1)"
proof -
  note d = dispatch_file_operation_unauthenticated [OF assms, where n = n]
  show "writes_frames s s1 \<and> card (live s1) \<le> card (live s)"
    if r: "dispatch cfg n c (Parsed data) s = Some (r1, s1)"
  proof (cases "''write'' \<in> set (list_of_dlist (permissions (heap s c)))")
    case True
    then have "send_error n c ''Authentication required'' s = Some (r1, s1)" using d r by simp
    then have "evolves s s1" by (rule send_error_evolves)
    then show ?thesis using evolves_writes_frames card_live_evolves by blast
  next
    case False
    then show ?thesis using d r
      by (cases "wire s (attempts s)") (auto simp: writes_frames_def live_def in_rooms_def)
  qed
  show "\<exists>r1 s1. dispatch cfg n c (Parsed data) s = Some (r1, s1)" if "card (live s) < n"
  proof (cases "''write'' \<in> set (list_of_dlist (permissions (heap s c)))")
    case True
    then show ?thesis using d send_error_total [OF that, of c "''Authentication required''"] by auto
  next
    case False
    then show ?thesis using d by (cases "wire s (attempts s)") auto
  qed
qed

lemma handle_message_file_operation_unauthenticated:
  assumes "c \<in> set (clients s)" and "\<not> authenticated (heap s c)"
    and "dict_get data ''type'' = Return (JStr ''file_operation'')"
  shows "handle_message (create_server ext) n c (Parsed data) s
           = handle_message ((create_server ext)\<lparr>message_handlers := []\<rparr>) n c (Parsed data) s"
    and "handle_message (create_server ext) n c (Parsed data) s = Some (r, s') \<Longrightarrow> writes_frames s s'"
    and "length (clients s) < n \<Longrightarrow>
           \<exists>r s'. handle_message (create_server ext) n c (Parsed data) s = Some (r, s')"
proof -
  let ?s0 = "note_activity c s"
  have na: "\<not> authenticated (heap ?s0 c)" using assms(2) by (simp add: note_activity_def)
  have lv: "live ?s0 = live s" by (simp add: note_activity_def live_def in_rooms_def)
  have m: "middleware ((create_server ext)\<lparr>message_handlers := []\<rparr>) = middleware (create_server ext)"
    by simp
  have "dispatch (create_server ext) n c (Parsed data) ?s0
      = dispatch ((create_server ext)\<lparr>message_handlers := []\<rparr>) n c (Parsed data) ?s0"
    using dispatch_file_operation_unauthenticated [OF na assms(3) refl, where n = n]
      dispatch_file_operation_unauthenticated [OF na assms(3) m, where n = n]
    by simp
  then show "handle_message (create_server ext) n c (Parsed data) s
           = handle_message ((create_server ext)\<lparr>message_handlers := []\<rparr>) n c (Parsed data) s"
    by (simp add: handle_message_def)
  show "writes_frames s s'" if h: "handle_message (create_server ext) n c (Parsed data) s = Some (r, s')"
  proof (cases "dispatch (create_server ext) n c (Parsed data) ?s0")
    case None
    then show ?thesis using h assms(1) by (simp add: handle_message_def)
  next
    case (Some p)
    obtain r1 s1 where p: "p = (r1, s1)" by (cases p)
    have d: "dispatch (create_server ext) n c (Parsed data) ?s0 = Some (r1, s1)" using Some p by simp
    have "writes_frames ?s0 s1"
      using dispatch_file_operation_unauthenticated_result(1) [OF na assms(3) refl d] by simp
    with d show ?thesis using h by (rule handle_message_writes_frames)
  qed
  show "\<exists>r s'. handle_message (create_server ext) n c (Parsed data) s = Some (r, s')"
    if n: "length (clients s) < n"
  proof -
    have "card (live s) \<le> card (set (clients s))" by (rule card_mono) (auto simp: live_def)
    also have "\<dots> \<le> length (clients s)" by (rule card_length)
    finally have b: "card (live ?s0) < n" using n lv by simp
    from dispatch_file_operation_unauthenticated_result(2) [OF na assms(3) refl b]
    obtain r1 s1 where d: "dispatch (create_server ext) n c (Parsed data) ?s0 = Some (r1, s1)"
      by blast
    have "card (live s1) \<le> card (live ?s0)"
      using dispatch_file_operation_unauthenticated_result(1) [OF na assms(3) refl d] by simp
    then have "card (live s1) < n" using b by simp
    with d show ?thesis by (rule handle_message_ends)
  qed
qed

lemma frames_exclude_collaborators:
  "list_all is_frame es \<Longrightarrow> FileOperationRequest w d \<notin> set es \<and> DeploymentRequest w d \<notin> set es"
  by (auto simp: list_all_iff)



section \<open>The claims\<close>

text \<open>
  C1. The claim: an unauthenticated session that sends a \<^verbatim>\<open>file_operation\<close> envelope to a
  server with the built-in middleware gets one error reply, \<^verbatim>\<open>Authentication required\<close>, and
  \<^verbatim>\<open>handle_file_operation_request\<close> is not called. On the code the middleware run before
  the authentication gate of \<^verbatim>\<open>handle_message\<close>. As amended: for a registered
  unauthenticated session, whatever the writes to the connections do,
  \<^verbatim>\<open>handle_message\<close> does what it does on a server with no handler at all, the trace grows by
  frames only, so \<^verbatim>\<open>handle_file_operation_request\<close> is not called, and with fuel above the
  number of registered clients it ends. When the reply can be written, the session gets
  exactly one frame and the state changes in nothing else but the bookkeeping of
  \<^verbatim>\<open>handle_message\<close>; the frame is the error \<^verbatim>\<open>Permission denied: write required\<close>, written by
  \<^verbatim>\<open>permission_middleware\<close>, when the session lacks the permission \<^verbatim>\<open>write\<close> (as a session
  that never authenticated or has logged out does), and the error
  \<^verbatim>\<open>Authentication required\<close> otherwise.
\<close>

theorem unauthenticated_file_operation:
  assumes "c \<in> set (clients s)" and "\<not> authenticated (heap s c)"
    and "dict_get data ''type'' = Return (JStr ''file_operation'')"
  shows "handle_message (create_server ext) n c (Parsed data) s
           = handle_message ((create_server ext)\<lparr>message_handlers := []\<rparr>) n c (Parsed data) s
       \<and> (\<forall>r s'. handle_message (create_server ext) n c (Parsed data) s = Some (r, s') \<longrightarrow>
             (\<exists>es. trace s' = trace s @ es \<and> list_all is_frame es
                \<and> (\<forall>w d. FileOperationRequest w d \<notin> set es)))
       \<and> (length (clients s) < n \<longrightarrow>
             (\<exists>r s'. handle_message (create_server ext) n c (Parsed data) s = Some (r, s')))
       \<and> (wire s (attempts s) = None \<longrightarrow>
           handle_message (create_server ext) n c (Parsed data) s =
             Some (Return (),
               if ''write'' \<in> set (list_of_dlist (permissions (heap s c)))
               then (note_activity c s)
                      \<lparr>attempts := Suc (attempts s),
                       trace := trace s @ [Frame (websocket (heap s c)) (error_envelope ''Authentication required'' s)],
                       metrics := (metrics (note_activity c s))\<lparr>messages_sent := Suc (messages_sent (metrics s))\<rparr>\<rparr>
               else (note_activity c s)
                      \<lparr>attempts := Suc (attempts s),
                       trace := trace s @ [Frame (websocket (heap s c))
                         (JObj [(''type'', JStr ''error''),
                                (''error'', JStr ''Permission denied: write required'')])]\<rparr>))"
proof (intro conjI allI impI)
  show "handle_message (create_server ext) n c (Parsed data) s
           = handle_message ((create_server ext)\<lparr>message_handlers := []\<rparr>) n c (Parsed data) s"
    using assms by (rule handle_message_file_operation_unauthenticated(1))
next
  fix r s' assume "handle_message (create_server ext) n c (Parsed data) s = Some (r, s')"
  with assms have "writes_frames s s'" by (rule handle_message_file_operation_unauthenticated(2))
  then obtain es where "trace s' = trace s @ es" "list_all is_frame es"
    by (auto simp: writes_frames_def)
  then show "\<exists>es. trace s' = trace s @ es \<and> list_all is_frame es
                \<and> (\<forall>w d. FileOperationRequest w d \<notin> set es)"
    using frames_exclude_collaborators by blast
next
  assume "length (clients s) < n"
  with assms show "\<exists>r s'. handle_message (create_server ext) n c (Parsed data) s = Some (r, s')"
    by (rule handle_message_file_operation_unauthenticated(3))
next
  assume "wire s (attempts s) = None"
  with assms show "handle_message (create_server ext) n c (Parsed data) s =
             Some (Return (),
               if ''write'' \<in> set (list_of_dlist (permissions (heap s c)))
               then (note_activity c s)
                      \<lparr>attempts := Suc (attempts s),
                       trace := trace s @ [Frame (websocket (heap s c)) (error_envelope ''Authentication required'' s)],
                       metrics := (metrics (note_activity c s))\<lparr>messages_sent := Suc (messages_sent (metrics s))\<rparr>\<rparr>
               else (note_activity c s)
                      \<lparr>attempts := Suc (attempts s),
                       trace := trace s @ [Frame (websocket (heap s c))
                         (JObj [(''type'', JStr ''error''),
                                (''error'', JStr ''Permission denied: write required'')])]\<rparr>)"
    by (rule builtin_file_operation_unauthenticated)
qed

text \<open>
  The amended statement for a session that has just connected: on connections that take
  every write, and on connections whose writes all fail.
\<close>

theorem unauthenticated_file_operation_witness:
  "handle_message (create_server idle_externals) 0 ''c1''
     (Parsed (JObj [(''type'', JStr ''file_operation'')])) (one_client reliable_wire) =
   Some (Return (),
     (note_activity ''c1'' (one_client reliable_wire))
        \<lparr>attempts := 1,
         trace := [Frame 7 (JObj [(''type'', JStr ''error''),
                                  (''error'', JStr ''Permission denied: write required'')])]\<rparr>)
   \<and> (\<exists>r s'. handle_message (create_server idle_externals) 3 ''c1''
          (Parsed (JObj [(''type'', JStr ''file_operation'')])) (one_client broken_wire) = Some (r, s')
        \<and> (\<forall>w d. FileOperationRequest w d \<notin> set (trace s')))"
proof
  have a: "''c1'' \<in> set (clients (one_client reliable_wire))" by (simp add: one_client_simps)
  have b: "\<not> authenticated (heap (one_client reliable_wire) ''c1'')" by (simp add: one_client_simps)
  have c: "dict_get (JObj [(''type'', JStr ''file_operation'')]) ''type'' = Return (JStr ''file_operation'')"
    by simp
  have d: "wire (one_client reliable_wire) (attempts (one_client reliable_wire)) = None"
    by (simp add: one_client_simps reliable_wire_def)
  from unauthenticated_file_operation [OF a b c, of idle_externals 0] d
  have "handle_message (create_server idle_externals) 0 ''c1''
          (Parsed (JObj [(''type'', JStr ''file_operation'')])) (one_client reliable_wire) =
        Some (Return (),
          if ''write'' \<in> set (list_of_dlist (permissions (heap (one_client reliable_wire) ''c1'')))
          then (note_activity ''c1'' (one_client reliable_wire))
                 \<lparr>attempts := Suc (attempts (one_client reliable_wire)),
                  trace := trace (one_client reliable_wire)
                    @ [Frame (websocket (heap (one_client reliable_wire) ''c1''))
                         (error_envelope ''Authentication required'' (one_client reliable_wire))],
                  metrics := (metrics (note_activity ''c1'' (one_client reliable_wire)))
                    \<lparr>messages_sent := Suc (messages_sent (metrics (one_client reliable_wire)))\<rparr>\<rparr>
          else (note_activity ''c1'' (one_client reliable_wire))
                 \<lparr>attempts := Suc (attempts (one_client reliable_wire)),
                  trace := trace (one_client reliable_wire)
                    @ [Frame (websocket (heap (one_client reliable_wire) ''c1''))
                         (JObj [(''type'', JStr ''error''),
                                (''error'', JStr ''Permission denied: write required'')])]\<rparr>)"
    by blast
  then show "handle_message (create_server idle_externals) 0 ''c1''
     (Parsed (JObj [(''type'', JStr ''file_operation'')])) (one_client reliable_wire) =
   Some (Return (),
     (note_activity ''c1'' (one_client reliable_wire))
        \<lparr>attempts := 1,
         trace := [Frame 7 (JObj [(''type'', JStr ''error''),
                                  (''error'', JStr ''Permission denied: write required'')])]\<rparr>)"
    by (simp add: one_client_simps)
  have 1: "''c1'' \<in> set (clients (one_client broken_wire))" by (simp add: one_client_simps)
  have 2: "\<not> authenticated (heap (one_client broken_wire) ''c1'')" by (simp add: one_client_simps)
  have 3: "dict_get (JObj [(''type'', JStr ''file_operation'')]) ''type'' = Return (JStr ''file_operation'')"
    by simp
  have 4: "length (clients (one_client broken_wire)) < 3" by (simp add: one_client_simps)
  let ?run = "handle_message (create_server idle_externals) 3 ''c1''
          (Parsed (JObj [(''type'', JStr ''file_operation'')])) (one_client broken_wire)"
  note th = unauthenticated_file_operation [OF 1 2 3, of idle_externals 3]
  from th 4 obtain r s' where run: "?run = Some (r, s')" by blast
  from th run obtain es where "trace s' = trace (one_client broken_wire) @ es"
    and "\<forall>w d. FileOperationRequest w d \<notin> set es" by blast
  then have "\<forall>w d. FileOperationRequest w d \<notin> set (trace s')"
    by (simp add: one_client_simps)
  with run show "\<exists>r s'. ?run = Some (r, s')
        \<and> (\<forall>w d. FileOperationRequest w d \<notin> set (trace s'))"
    by blast
qed

text \<open>
  The claim as stated fails for a session that has just connected: the one frame it gets
  is the permission error of the middleware, not \<^verbatim>\<open>Authentication required\<close>.
\<close>

theorem unauthenticated_file_operation_counterexample:
  "\<not> authenticated (heap (one_client reliable_wire) ''c1'')
   \<and> map_option (trace \<circ> snd)
        (handle_message (create_server idle_externals) 0 ''c1''
           (Parsed (JObj [(''type'', JStr ''file_operation'')])) (one_client reliable_wire))
      = Some [Frame 7 (JObj [(''type'', JStr ''error''),
                             (''error'', JStr ''Permission denied: write required'')])]
   \<and> map_option (trace \<circ> snd)
        (handle_message (create_server idle_externals) 0 ''c1''
           (Parsed (JObj [(''type'', JStr ''file_operation'')])) (one_client reliable_wire))
      \<noteq> Some [Frame 7 (error_envelope ''Authentication required'' (one_client reliable_wire))]"
  using builtin_file_operation_unauthenticated [of "''c1''" "one_client reliable_wire"
      "JObj [(''type'', JStr ''file_operation'')]" idle_externals 0]
  by (simp add: one_client_simps reliable_wire_def error_envelope_def)

text \<open>
  C2. After every finite sequence of connects and disconnects, started on a new server and
  each run to its end, the sequence has ended (the fuel given to each operation is enough)
  and \<^verbatim>\<open>metrics['active_connections']\<close> is the number of registered clients, whatever the
  writes to the connections do. Every prefix of a sequence is a sequence, so this holds
  between any two operations.
\<close>

theorem active_connections_is_registry_size:
  "\<exists>s'. run_operations ops (server_init key t wr) = Some s'
        \<and> active_connections (metrics s') = length (clients s')"
  by (rule run_operations_total) (simp add: server_init_def)

text \<open>
  Two connects and a disconnect on connections whose writes all fail.
\<close>

theorem active_connections_is_registry_size_witness:
  "\<exists>s'. run_operations [Connect ''c1'' 7 ''/w'', Connect ''c2'' 8 ''/w'', Disconnect ''c1'']
           (server_init ''key'' 1000 broken_wire) = Some s'
        \<and> active_connections (metrics s') = length (clients s')"
  using active_connections_is_registry_size
    [of "[Connect ''c1'' 7 ''/w'', Connect ''c2'' 8 ''/w'', Disconnect ''c1'']" "''key''" 1000 broken_wire]
  by simp

text \<open>
  C3. The claim: after \<^verbatim>\<open>disconnect_client\<close> the id is in no room and not in the registry,
  also when a step of the cleanup raises. \<^verbatim>\<open>disconnect_client\<close> has no \<^verbatim>\<open>try\<close>: an exception that
  leaves the notification ends it before the registry entry is deleted. As amended: for a
  registered id and fuel above the number of registered clients, \<^verbatim>\<open>disconnect_client\<close> ends;
  the id is then in no room, whether it returned or raised; if it returned, the id is not
  in the registry; and it returns whenever every failing write fails with an exception
  that derives from \<^verbatim>\<open>Exception\<close> (\<^verbatim>\<open>send_to_client\<close> catches these).
\<close>

theorem disconnect_removes_session:
  assumes "c \<in> set (clients s)" and "length (clients s) < n"
  shows "\<exists>r s'. disconnect_client n c s = Some (r, s')
           \<and> (\<forall>k ms. (k, ms) \<in> set (rooms s') \<longrightarrow> c \<notin> set (list_of_dlist ms))
           \<and> (r = Return () \<longrightarrow> c \<notin> set (clients s'))
           \<and> ((\<forall>k e. wire s k = Some e \<longrightarrow> is_Exception e) \<longrightarrow> r = Return ())"
proof -
  have "card (live s - {c}) < n"
    using card_live_le [of s c] assms(2) by simp
  from messaging_total(3) [OF this]
  obtain r s' where d: "disconnect_client n c s = Some (r, s')" and e: "escapes s r"
    and a: "r = Return () \<longrightarrow> c \<notin> set (clients s')" and b: "c \<notin> in_rooms s'"
    using assms(1) by blast
  have "\<forall>k ms. (k, ms) \<in> set (rooms s') \<longrightarrow> c \<notin> set (list_of_dlist ms)"
    using b by (auto simp: in_rooms_def)
  moreover have "(\<forall>k e. wire s k = Some e \<longrightarrow> is_Exception e) \<longrightarrow> r = Return ()"
    using e by (auto simp: escapes_def)
  ultimately show ?thesis using d a by blast
qed

text \<open>
  The amended statement for one of two clients of a room, the writes to the other failing.
\<close>

theorem disconnect_removes_session_witness:
  "\<exists>s'. disconnect_client 3 ''c1'' (two_clients broken_wire) = Some (Return (), s')
        \<and> ''c1'' \<notin> set (clients s')
        \<and> (\<forall>k ms. (k, ms) \<in> set (rooms s') \<longrightarrow> ''c1'' \<notin> set (list_of_dlist ms))"
proof -
  have 1: "''c1'' \<in> set (clients (two_clients broken_wire))" by (simp add: two_clients_simps)
  have 2: "length (clients (two_clients broken_wire)) < 3" by (simp add: two_clients_simps)
  have 3: "\<forall>k e. wire (two_clients broken_wire) k = Some e \<longrightarrow> is_Exception e"
    by (simp add: two_clients_simps broken_wire_def)
  from disconnect_removes_session [OF 1 2] 3 show ?thesis by blast
qed

text \<open>
  The claim as stated fails when the write of the \<^verbatim>\<open>user_left\<close> notification is cancelled:
  \<^verbatim>\<open>disconnect_client\<close> raises and the client is still registered.
\<close>

theorem disconnect_interrupted_counterexample:
  "map_option fst (disconnect_client 3 ''c1'' (two_clients cancelled_wire)) = Some (Raise CancelledError)
   \<and> map_option (clients \<circ> snd) (disconnect_client 3 ''c1'' (two_clients cancelled_wire))
       = Some [''c1'', ''c2'']"
proof -
  let ?s = "two_clients cancelled_wire"
  let ?s1 = "discard_everywhere ''c1'' ?s"
  have sc: "send_to_client 2 ''c2'' (user_left ''c1'' ?s1) ?s1
      = Some (Raise CancelledError, ?s1\<lparr>attempts := Suc (attempts ?s1)\<rparr>)"
    by (rule send_to_client_escaped)
      (simp_all add: two_clients_after_discard two_clients_simps cancelled_wire_def)
  have w: "workspace (heap ?s ''c1'') = ''w''" by (simp add: two_clients_simps)
  have lp: "send_to_workspace_loop 2 (room_members (workspace (heap ?s ''c1'')) ?s1)
      (user_left ''c1'' ?s1) (Some ''c1'') ?s1
      = Some (Raise CancelledError, ?s1\<lparr>attempts := Suc (attempts ?s1)\<rparr>)"
    unfolding w two_clients_after_discard(1) using sc by simp
  have 1: "''c1'' \<in> set (clients ?s)" by (simp add: two_clients_simps)
  have 2: "workspace (heap ?s ''c1'') \<noteq> []" by (simp add: w)
  have "disconnect_client (Suc 2) ''c1'' ?s
      = Some (Raise CancelledError, ?s1\<lparr>attempts := Suc (attempts ?s1)\<rparr>)"
    using 1 2 lp by (rule disconnect_client_interrupted)
  moreover have "Suc 2 = 3" by simp
  ultimately have "disconnect_client 3 ''c1'' ?s
      = Some (Raise CancelledError, ?s1\<lparr>attempts := Suc (attempts ?s1)\<rparr>)"
    by metis
  then show ?thesis by (simp add: two_clients_simps)
qed

text \<open>
  C4. For a registered session whose reply can be written, and a token issued by this
  server process (same secret key) at time \<open>now s0\<close>: presented after the expiry epoch
  \<open>now s0 + 86400\<close>, \<^verbatim>\<open>_handle_auth\<close> answers with the error \<^verbatim>\<open>Invalid token\<close> and changes no
  client object; presented one second before the expiry epoch, it authenticates the
  session with the permissions read, write and execute. The token that \<^verbatim>\<open>_handle_auth\<close>
  sends to a session that presents none has the expiry epoch \<open>now s + 86400\<close>.
\<close>

theorem token_expiry:
  assumes "c \<in> set (clients s)" and "wire s (attempts s) = None"
  shows "(dict_get data ''token'' = Return (issue_token c0 s0) \<and> secret_key s = secret_key s0
            \<and> now s0 + 86400 < now s \<longrightarrow>
          handle_auth n c data s =
            Some (Return (),
              s\<lparr>attempts := Suc (attempts s),
                trace := trace s @ [Frame (websocket (heap s c)) (error_envelope ''Invalid token'' s)],
                metrics := (metrics s)\<lparr>messages_sent := Suc (messages_sent (metrics s))\<rparr>\<rparr>))
       \<and> (dict_get data ''token'' = Return (issue_token c0 s0) \<and> secret_key s = secret_key s0
            \<and> now s = now s0 + 86400 - 1 \<longrightarrow>
          (\<exists>s'. handle_auth n c data s = Some (Return (), s')
             \<and> authenticated (heap s' c)
             \<and> set (list_of_dlist (permissions (heap s' c))) = {''read'', ''write'', ''execute''}))
       \<and> (dict_get data ''token'' = Return JNull \<and> length (clients s) < n \<longrightarrow>
          (\<exists>r s' es. handle_auth n c data s = Some (r, s')
             \<and> trace s' = trace s @
                 Frame (websocket (heap s c))
                   (JObj [(''type'', JStr ''auth_success''),
                          (''token'', JToken c (workspace (heap s c)) (now s + 86400) (secret_key s)),
                          (''permissions'', JArr (map JStr (list_of_dlist default_permissions)))]) # es))"
proof (intro conjI impI)
  assume a: "dict_get data ''token'' = Return (issue_token c0 s0) \<and> secret_key s = secret_key s0
            \<and> now s0 + 86400 < now s"
  note grant_simps [simp] and room_add_simps [simp]
  from a have "jwt_decode (issue_token c0 s0) (secret_key s) (now s) = Raise InvalidTokenError"
    by (simp add: issue_token_def jwt_encode_def)
  then show "handle_auth n c data s =
            Some (Return (),
              s\<lparr>attempts := Suc (attempts s),
                trace := trace s @ [Frame (websocket (heap s c)) (error_envelope ''Invalid token'' s)],
                metrics := (metrics s)\<lparr>messages_sent := Suc (messages_sent (metrics s))\<rparr>\<rparr>)"
    using a assms
    by (simp add: handle_auth_def issue_token_def jwt_encode_def send_error_def send_to_client_written)
next
  assume a: "dict_get data ''token'' = Return (issue_token c0 s0) \<and> secret_key s = secret_key s0
            \<and> now s = now s0 + 86400 - 1"
  note grant_simps [simp] and room_add_simps [simp]
  let ?s2 = "room_add (JStr (workspace (heap (grant c s) c))) c (grant c s)"
  have reg: "c \<in> set (clients ?s2)" "wire ?s2 (attempts ?s2) = None"
    using assms by simp_all
  have "handle_auth n c data s =
      send_to_client n c (JObj [(''type'', JStr ''auth_success''),
                                 (''permissions'', permissions_json c ?s2)]) ?s2"
    using a by (simp add: handle_auth_def issue_token_def jwt_encode_def Let_def)
  then show "\<exists>s'. handle_auth n c data s = Some (Return (), s')
             \<and> authenticated (heap s' c)
             \<and> set (list_of_dlist (permissions (heap s' c))) = {''read'', ''write'', ''execute''}"
    using reg by (simp add: send_to_client_written default_permissions_set)
next
  assume a: "dict_get data ''token'' = Return JNull \<and> length (clients s) < n"
  note grant_simps [simp] and room_add_simps [simp]
  let ?s2 = "room_add (JStr (workspace (heap (grant c s) c))) c (grant c s)"
  let ?msg = "JObj [(''type'', JStr ''auth_success''),
                          (''token'', JToken c (workspace (heap s c)) (now s + 86400) (secret_key s)),
                          (''permissions'', JArr (map JStr (list_of_dlist default_permissions)))]"
  let ?s3 = "?s2\<lparr>attempts := Suc (attempts ?s2),
                 trace := trace ?s2 @ [Frame (websocket (heap ?s2 c)) ?msg],
                 metrics := (metrics ?s2)\<lparr>messages_sent := Suc (messages_sent (metrics ?s2))\<rparr>\<rparr>"
  let ?joined = "JObj [(''type'', JStr ''user_joined''), (''client_id'', JStr c),
                            (''timestamp'', JTime (now ?s3))]"
  have reg: "c \<in> set (clients ?s2)" "wire ?s2 (attempts ?s2) = None"
    using assms by simp_all
  have st: "send_to_client n c ?msg ?s2 = Some (Return (), ?s3)"
    using reg by (rule send_to_client_written)
  have h: "handle_auth n c data s = send_to_workspace n (workspace (heap ?s3 c)) ?joined (Some c) ?s3"
    using a st
    by (simp add: handle_auth_def issue_token_def jwt_encode_def Let_def and_then_def permissions_json_def)
  have "length (clients ?s3) < n" using a by simp
  from workspace_loop_total [OF this, of "workspace (heap ?s3 c)" ?joined "Some c"]
  obtain r s' where r: "send_to_workspace n (workspace (heap ?s3 c)) ?joined (Some c) ?s3 = Some (r, s')"
    and ev: "evolves ?s3 s'" by blast
  from ev obtain es where "trace s' = trace ?s3 @ es" by (auto simp: evolves_def)
  then have "trace s' = trace s @ Frame (websocket (heap s c)) ?msg # es" by simp
  with h r show "\<exists>r s' es. handle_auth n c data s = Some (r, s')
             \<and> trace s' = trace s @ Frame (websocket (heap s c)) ?msg # es"
    by auto
qed

text \<open>
  The three cases for the client of a one-client server, with a token issued at time 1000.
\<close>

theorem token_expiry_witness:
  "handle_auth 0 ''c1''
     (JObj [(''type'', JStr ''auth''), (''token'', issue_token ''c1'' (one_client reliable_wire))])
     ((one_client reliable_wire)\<lparr>now := 1000 + 86400 + 1\<rparr>)
   = Some (Return (),
       (one_client reliable_wire)
         \<lparr>now := 1000 + 86400 + 1, attempts := 1,
          trace := [Frame 7 (JObj [(''type'', JStr ''error''), (''error'', JStr ''Invalid token''),
                                   (''timestamp'', JTime (1000 + 86400 + 1))])],
          metrics := \<lparr>messages_sent = 1, messages_received = 0, errors = 0,
                      active_connections = 1, total_connections = 1\<rparr>\<rparr>)
   \<and> (\<exists>s'. handle_auth 0 ''c1''
          (JObj [(''type'', JStr ''auth''), (''token'', issue_token ''c1'' (one_client reliable_wire))])
          ((one_client reliable_wire)\<lparr>now := 1000 + 86400 - 1\<rparr>) = Some (Return (), s')
        \<and> authenticated (heap s' ''c1''))
   \<and> (\<exists>r s' es. handle_auth 2 ''c1'' (JObj [(''type'', JStr ''auth'')]) (one_client reliable_wire)
          = Some (r, s')
        \<and> trace s' = Frame 7
                   (JObj [(''type'', JStr ''auth_success''),
                          (''token'', JToken ''c1'' ''w'' 87400 ''key''),
                          (''permissions'', JArr (map JStr (list_of_dlist default_permissions)))]) # es)"
proof (intro conjI)
  let ?tok = "JObj [(''type'', JStr ''auth''), (''token'', issue_token ''c1'' (one_client reliable_wire))]"
  show "handle_auth 0 ''c1'' ?tok ((one_client reliable_wire)\<lparr>now := 1000 + 86400 + 1\<rparr>)
   = Some (Return (),
       (one_client reliable_wire)
         \<lparr>now := 1000 + 86400 + 1, attempts := 1,
          trace := [Frame 7 (JObj [(''type'', JStr ''error''), (''error'', JStr ''Invalid token''),
                                   (''timestamp'', JTime (1000 + 86400 + 1))])],
          metrics := \<lparr>messages_sent = 1, messages_received = 0, errors = 0,
                      active_connections = 1, total_connections = 1\<rparr>\<rparr>)"
    using token_expiry [of "''c1''" "(one_client reliable_wire)\<lparr>now := 1000 + 86400 + 1\<rparr>"
        ?tok "''c1''" "one_client reliable_wire" 0]
    by (simp add: one_client_simps reliable_wire_def error_envelope_def)
  show "\<exists>s'. handle_auth 0 ''c1'' ?tok ((one_client reliable_wire)\<lparr>now := 1000 + 86400 - 1\<rparr>)
          = Some (Return (), s') \<and> authenticated (heap s' ''c1'')"
    using token_expiry [of "''c1''" "(one_client reliable_wire)\<lparr>now := 1000 + 86400 - 1\<rparr>"
        ?tok "''c1''" "one_client reliable_wire" 0]
    by (auto simp: one_client_simps reliable_wire_def)
  show "\<exists>r s' es. handle_auth 2 ''c1'' (JObj [(''type'', JStr ''auth'')]) (one_client reliable_wire)
          = Some (r, s')
        \<and> trace s' = Frame 7
                   (JObj [(''type'', JStr ''auth_success''),
                          (''token'', JToken ''c1'' ''w'' 87400 ''key''),
                          (''permissions'', JArr (map JStr (list_of_dlist default_permissions)))]) # es"
    using token_expiry [of "''c1''" "one_client reliable_wire" "JObj [(''type'', JStr ''auth'')]"
        "''c1''" "one_client reliable_wire" 2]
    by (simp add: one_client_simps reliable_wire_def)
qed

text \<open>
  C5. \<^verbatim>\<open>add_middleware\<close> appends to the list, and the middleware run in the order of the list:
  the loop over no stage returns the envelope, and the loop over a stage and the rest runs
  the stage and, when it returns an envelope, goes on with the rest on that envelope and on
  the state the stage left. This holds for every message type that is truthy (\<^verbatim>\<open>auth\<close> and
  \<^verbatim>\<open>ping\<close> with them). When a stage returns \<^verbatim>\<open>None\<close>, \<^verbatim>\<open>handle_message\<close> returns with the state
  that this stage left: no later stage and no handler has run and nothing was sent after
  it. When all stages pass, the handler runs on the envelope and the state of the last
  one.
\<close>

theorem middleware_pipeline:
  assumes "c \<in> set (clients s)" and "dict_get data ''type'' = Return mt" and "truthy mt"
    and "apply_middleware pre n c data (note_activity c s) = Some (Return (Some d1), s1)"
    and "m n c d1 s1 = Some (Return JNull, s2)"
  shows "handle_message \<lparr>middleware = pre @ m # post, message_handlers = hs\<rparr> n c (Parsed data) s
           = Some (Return (), s2)
       \<and> (\<forall>ms1 ms2 d s0. apply_middleware (ms1 @ ms2) n c d s0 =
             (case apply_middleware ms1 n c d s0 of
                Some (Return (Some d'), s') \<Rightarrow> apply_middleware ms2 n c d' s'
              | r \<Rightarrow> r))
       \<and> (\<forall>m1 m2 cfg. middleware (add_middleware m2 (add_middleware m1 cfg))
             = middleware cfg @ [m1, m2])
       \<and> (\<forall>d s0. apply_middleware [] n c d s0 = Some (Return (Some d), s0))
       \<and> (\<forall>m0 ms d s0. apply_middleware (m0 # ms) n c d s0 =
             (case m0 n c d s0 of
                None \<Rightarrow> None
              | Some (Raise e, s') \<Rightarrow> Some (Raise e, s')
              | Some (Return d', s') \<Rightarrow>
                  if d' = JNull then Some (Return None, s')
                  else apply_middleware ms n c d' s'))
       \<and> (\<forall>ms t h d' s' s''.
             mt = JStr t
             \<and> apply_middleware ms n c data (note_activity c s) = Some (Return (Some d'), s')
             \<and> (t = ''auth'' \<or> t = ''ping'' \<or> authenticated (heap s' c))
             \<and> map_of hs t = Some h
             \<and> h n c d' s' = Some (Return (), s'')
             \<longrightarrow> handle_message \<lparr>middleware = ms, message_handlers = hs\<rparr> n c (Parsed data) s
                   = Some (Return (), s''))"
proof -
  have order: "\<forall>m1 m2 cfg. middleware (add_middleware m2 (add_middleware m1 cfg))
             = middleware cfg @ [m1, m2]"
    by (simp add: add_middleware_def)
  have "apply_middleware (pre @ m # post) n c data (note_activity c s) = Some (Return None, s2)"
    using assms(4,5) by (simp add: apply_middleware_append)
  then have "dispatch \<lparr>middleware = pre @ m # post, message_handlers = hs\<rparr> n c (Parsed data)
      (note_activity c s) = Some (Return (), s2)"
    using assms(2,3) by (simp add: dispatch_def)
  then have rej: "handle_message \<lparr>middleware = pre @ m # post, message_handlers = hs\<rparr> n c (Parsed data) s
           = Some (Return (), s2)"
    using assms(1) by (simp add: handle_message_def)
  have nil: "\<forall>d s0. apply_middleware [] n c d s0 = Some (Return (Some d), s0)"
    by simp
  have one: "\<forall>m0 ms d s0. apply_middleware (m0 # ms) n c d s0 =
             (case m0 n c d s0 of
                None \<Rightarrow> None
              | Some (Raise e, s') \<Rightarrow> Some (Raise e, s')
              | Some (Return d', s') \<Rightarrow>
                  if d' = JNull then Some (Return None, s')
                  else apply_middleware ms n c d' s')"
    by simp
  have hd: "handle_message \<lparr>middleware = ms, message_handlers = hs\<rparr> n c (Parsed data) s
                   = Some (Return (), s'')"
    if "mt = JStr t"
      and "apply_middleware ms n c data (note_activity c s) = Some (Return (Some d'), s')"
      and "t = ''auth'' \<or> t = ''ping'' \<or> authenticated (heap s' c)"
      and "map_of hs t = Some h"
      and "h n c d' s' = Some (Return (), s'')"
    for ms t h d' s' s''
  proof -
    have t: "dict_get data ''type'' = Return (JStr t)" "t \<noteq> []"
      using assms(2,3) that(1) by auto
    have "dispatch \<lparr>middleware = ms, message_handlers = hs\<rparr> n c (Parsed data) (note_activity c s)
        = h n c d' s'"
      by (rule dispatch_to_handler [OF t]) (use that in simp_all)
    then show ?thesis using assms(1) that(5) by (simp add: handle_message_def)
  qed
  show ?thesis
    apply (intro conjI)
         apply (rule rej)
        apply (use apply_middleware_append in blast)
       apply (rule order)
      apply (rule nil)
     apply (rule one)
    apply (use hd in blast)
    done
qed

text \<open>
  A \<^verbatim>\<open>ping\<close> that the first stage marks and the second passes because of the mark: with a
  rejecting third stage no \<^verbatim>\<open>pong\<close> is sent, and without it the handler answers.
\<close>

theorem middleware_pipeline_witness:
  "handle_message
     \<lparr>middleware = [marking_middleware, mark_checking_middleware, rejecting_middleware,
                    permission_middleware],
      message_handlers = register_builtin_handlers idle_externals\<rparr>
     0 ''c1'' (Parsed (JObj [(''type'', JStr ''ping'')])) (one_client reliable_wire)
   = Some (Return (), note_activity ''c1'' (one_client reliable_wire))
   \<and> handle_message
     \<lparr>middleware = [marking_middleware, mark_checking_middleware],
      message_handlers = [(''ping'', handle_ping)]\<rparr>
     0 ''c1'' (Parsed (JObj [(''type'', JStr ''ping'')])) (one_client reliable_wire)
   = Some (Return (),
       (note_activity ''c1'' (one_client reliable_wire))
         \<lparr>attempts := 1,
          trace := [Frame 7 (JObj [(''type'', JStr ''pong''), (''timestamp'', JTime 1000)])],
          metrics := \<lparr>messages_sent = 1, messages_received = 1, errors = 0,
                      active_connections = 1, total_connections = 1\<rparr>\<rparr>)"
proof -
  let ?s0 = "note_activity ''c1'' (one_client reliable_wire)"
  let ?ping = "JObj [(''type'', JStr ''ping'')]"
  let ?marked = "JObj [(''type'', JStr ''ping''), (''mark'', JBool True)]"
  let ?s3 = "?s0\<lparr>attempts := Suc (attempts ?s0),
                 trace := trace ?s0 @ [Frame (websocket (heap ?s0 ''c1''))
                    (JObj [(''type'', JStr ''pong''), (''timestamp'', JTime (now ?s0))])],
                 metrics := (metrics ?s0)\<lparr>messages_sent := Suc (messages_sent (metrics ?s0))\<rparr>\<rparr>"
  have a: "''c1'' \<in> set (clients (one_client reliable_wire))"
    by (simp add: one_client_simps)
  have b: "dict_get ?ping ''type'' = Return (JStr ''ping'')" by simp
  have c: "truthy (JStr ''ping'')" by simp
  have d: "apply_middleware [marking_middleware, mark_checking_middleware] 0 ''c1'' ?ping ?s0
           = Some (Return (Some ?marked), ?s0)"
    by (simp add: marking_middleware_def mark_checking_middleware_def)
  have e: "rejecting_middleware 0 ''c1'' ?marked ?s0 = Some (Return JNull, ?s0)"
    by (simp add: rejecting_middleware_def)
  note th = middleware_pipeline [where m = rejecting_middleware
      and pre = "[marking_middleware, mark_checking_middleware]"
      and post = "[permission_middleware]", OF a b c d e]
  have 1: "handle_message
     \<lparr>middleware = [marking_middleware, mark_checking_middleware, rejecting_middleware,
                    permission_middleware],
      message_handlers = register_builtin_handlers idle_externals\<rparr>
     0 ''c1'' (Parsed ?ping) (one_client reliable_wire) = Some (Return (), ?s0)"
    using th [of "register_builtin_handlers idle_externals"] by simp
  have reg: "''c1'' \<in> set (clients ?s0)" "wire ?s0 (attempts ?s0) = None"
    by (simp_all add: note_activity_def one_client_simps reliable_wire_def)
  have f: "handle_ping 0 ''c1'' ?marked ?s0 = Some (Return (), ?s3)"
    unfolding handle_ping_def using reg by (rule send_to_client_written)
  have g: "map_of [(''ping'', handle_ping)] ''ping'' = Some handle_ping" by simp
  have "handle_message
     \<lparr>middleware = [marking_middleware, mark_checking_middleware],
      message_handlers = [(''ping'', handle_ping)]\<rparr>
     0 ''c1'' (Parsed ?ping) (one_client reliable_wire) = Some (Return (), ?s3)"
    using th [of "[(''ping'', handle_ping)]"] d f g by blast
  moreover have "?s3 = ?s0\<lparr>attempts := 1,
          trace := [Frame 7 (JObj [(''type'', JStr ''pong''), (''timestamp'', JTime 1000)])],
          metrics := \<lparr>messages_sent = 1, messages_received = 1, errors = 0,
                      active_connections = 1, total_connections = 1\<rparr>\<rparr>"
    by (simp add: note_activity_def one_client_simps)
  ultimately show ?thesis using 1 by simp
qed

text \<open>
  C6. A broadcast with the sender excluded is one call of \<^verbatim>\<open>send_to_client\<close> for each
  member of the snapshot of the room other than the sender, in the order of the snapshot:
  the recipients are distinct, they are the members without the sender, and their number
  is \<open>N - 1\<close> when the sender is a member and \<open>N\<close> otherwise. The snapshot is the room as it
  was at the call. When all members are registered and all writes succeed, each recipient's
  connection gets the envelope once and nothing else is written.
\<close>

theorem broadcast_excludes_sender:
  "send_to_workspace n w d (Some x) s
     = deliver_to_each n (filter (\<lambda>c. c \<noteq> x) (room_members w s)) d s
   \<and> distinct (filter (\<lambda>c. c \<noteq> x) (room_members w s))
   \<and> set (filter (\<lambda>c. c \<noteq> x) (room_members w s)) = set (room_members w s) - {x}
   \<and> length (filter (\<lambda>c. c \<noteq> x) (room_members w s))
       = (if x \<in> set (room_members w s) then length (room_members w s) - 1
          else length (room_members w s))
   \<and> ((\<forall>k. wire s k = None) \<and> set (room_members w s) \<subseteq> set (clients s) \<longrightarrow>
        send_to_workspace n w d (Some x) s =
          Some (Return (),
            s\<lparr>attempts := attempts s + length (filter (\<lambda>c. c \<noteq> x) (room_members w s)),
              trace := trace s @ map (\<lambda>c. Frame (websocket (heap s c)) d)
                                     (filter (\<lambda>c. c \<noteq> x) (room_members w s)),
              metrics := (metrics s)\<lparr>messages_sent := messages_sent (metrics s)
                          + length (filter (\<lambda>c. c \<noteq> x) (room_members w s))\<rparr>\<rparr>))"
proof -
  have eq: "send_to_workspace n w d (Some x) s
     = deliver_to_each n (filter (\<lambda>c. c \<noteq> x) (room_members w s)) d s"
    by (simp add: send_to_workspace_def loop_is_deliver_to_each)
  have len: "length (filter (\<lambda>c. c \<noteq> x) (room_members w s))
       = (if x \<in> set (room_members w s) then length (room_members w s) - 1
          else length (room_members w s))"
    by (rule length_filter_neq) simp
  have st: "set (filter (\<lambda>c. c \<noteq> x) (room_members w s)) = set (room_members w s) - {x}"
    by auto
  have wr: "send_to_workspace n w d (Some x) s =
          Some (Return (),
            s\<lparr>attempts := attempts s + length (filter (\<lambda>c. c \<noteq> x) (room_members w s)),
              trace := trace s @ map (\<lambda>c. Frame (websocket (heap s c)) d)
                                     (filter (\<lambda>c. c \<noteq> x) (room_members w s)),
              metrics := (metrics s)\<lparr>messages_sent := messages_sent (metrics s)
                          + length (filter (\<lambda>c. c \<noteq> x) (room_members w s))\<rparr>\<rparr>)"
    if "\<forall>k. wire s k = None" "set (room_members w s) \<subseteq> set (clients s)"
  proof -
    have "set (filter (\<lambda>c. c \<noteq> x) (room_members w s)) \<subseteq> set (clients s)"
      using that(2) by auto
    from deliver_to_each_written [OF that(1) this] eq show ?thesis by simp
  qed
  show ?thesis using eq len st wr by (intro conjI impI) simp_all
qed

text \<open>
  A broadcast of the first of two clients of a room reaches the second one only.
\<close>

theorem broadcast_excludes_sender_witness:
  "send_to_workspace 0 ''w'' (JObj [(''type'', JStr ''cursor_update'')]) (Some ''c1'')
     (two_clients reliable_wire)
   = Some (Return (),
       (two_clients reliable_wire)
         \<lparr>attempts := 1,
          trace := [Frame 8 (JObj [(''type'', JStr ''cursor_update'')])],
          metrics := \<lparr>messages_sent = 1, messages_received = 0, errors = 0,
                      active_connections = 2, total_connections = 2\<rparr>\<rparr>)"
proof -
  have m: "room_members ''w'' (two_clients reliable_wire) = [''c2'', ''c1'']"
    by (simp add: room_members_def two_clients_rooms)
  have a: "\<forall>k. wire (two_clients reliable_wire) k = None"
    by (simp add: two_clients_simps reliable_wire_def)
  have b: "set (room_members ''w'' (two_clients reliable_wire)) \<subseteq> set (clients (two_clients reliable_wire))"
    by (simp add: m two_clients_simps)
  let ?to = "filter (\<lambda>c. c \<noteq> ''c1'') (room_members ''w'' (two_clients reliable_wire))"
  from broadcast_excludes_sender [of 0 "''w''" "JObj [(''type'', JStr ''cursor_update'')]" "''c1''"
      "two_clients reliable_wire"] a b
  have "send_to_workspace 0 ''w'' (JObj [(''type'', JStr ''cursor_update'')]) (Some ''c1'')
     (two_clients reliable_wire)
   = Some (Return (),
       (two_clients reliable_wire)
         \<lparr>attempts := attempts (two_clients reliable_wire) + length ?to,
          trace := trace (two_clients reliable_wire)
             @ map (\<lambda>c. Frame (websocket (heap (two_clients reliable_wire) c))
                       (JObj [(''type'', JStr ''cursor_update'')])) ?to,
          metrics := (metrics (two_clients reliable_wire))
             \<lparr>messages_sent := messages_sent (metrics (two_clients reliable_wire)) + length ?to\<rparr>\<rparr>)"
    by blast
  then show ?thesis by (simp add: m two_clients_simps)
qed








text \<open>
  C9. When the \<^verbatim>\<open>channel\<close> field of a \<^verbatim>\<open>subscribe\<close> or \<^verbatim>\<open>unsubscribe\<close> envelope is missing
  or falsy, the two handlers return with the state untouched; on a server made by
  \<^verbatim>\<open>create_server\<close>, handling the envelope for an authenticated session changes nothing but
  the bookkeeping of \<^verbatim>\<open>handle_message\<close>: the rooms stay as they are and no frame is written.
\<close>

theorem subscribe_without_channel:
  assumes "dict_get data ''channel'' = Return ch" and "\<not> truthy ch"
    and "dict_get data ''type'' = Return (JStr t)" and "t = ''subscribe'' \<or> t = ''unsubscribe''"
    and "c \<in> set (clients s)" and "authenticated (heap s c)"
  shows "handle_subscribe n c data s = Some (Return (), s)
       \<and> handle_unsubscribe n c data s = Some (Return (), s)
       \<and> handle_message (create_server ext) n c (Parsed data) s = Some (Return (), note_activity c s)
       \<and> rooms (note_activity c s) = rooms s
       \<and> trace (note_activity c s) = trace s"
proof -
  have h: "handle_subscribe n c data s' = Some (Return (), s')"
          "handle_unsubscribe n c data s' = Some (Return (), s')" for s'
    using assms(1,2) by (simp_all add: handle_subscribe_def handle_unsubscribe_def)
  have p: "map_of permission_map t = None" using assms(4) by (auto simp: permission_map_def)
  have mw: "apply_middleware (middleware (create_server ext)) n c data (note_activity c s)
      = Some (Return (Some data), note_activity c s)"
    using assms(3) p by (rule apply_builtin_middleware_pass)
  have au: "t = ''auth'' \<or> t = ''ping'' \<or> authenticated (heap (note_activity c s) c)"
    using assms(6) by (simp add: note_activity_def)
  have tt: "t \<noteq> []" using assms(4) by auto
  have "\<exists>h. map_of (message_handlers (create_server ext)) (t) = Some h
      \<and> h n c data (note_activity c s) = Some (Return (), note_activity c s)"
    using assms(4) h by (auto simp: builtin_handlers_get)
  then obtain hd where hd: "map_of (message_handlers (create_server ext)) (t) = Some hd"
    and hr: "hd n c data (note_activity c s) = Some (Return (), note_activity c s)" by blast
  have "dispatch (create_server ext) n c (Parsed data) (note_activity c s) = Some (Return (), note_activity c s)"
    using dispatch_to_handler [OF assms(3) tt mw au hd] hr by simp
  then have "handle_message (create_server ext) n c (Parsed data) s = Some (Return (), note_activity c s)"
    using assms(5) by (simp add: handle_message_def)
  moreover have "rooms (note_activity c s) = rooms s" "trace (note_activity c s) = trace s"
    by (simp_all add: note_activity_def)
  ultimately show ?thesis using h by simp
qed

text \<open>
  An authenticated client that subscribes to the empty channel.
\<close>

theorem subscribe_without_channel_witness:
  "handle_message (create_server idle_externals) 0 ''c1''
     (Parsed (JObj [(''type'', JStr ''subscribe''), (''channel'', JStr [])]))
     (two_clients reliable_wire) = Some (Return (), note_activity ''c1'' (two_clients reliable_wire))"
  using subscribe_without_channel [of "JObj [(''type'', JStr ''subscribe''), (''channel'', JStr [])]"
      "JStr []" "''subscribe''" "''c1''" "two_clients reliable_wire" 0 idle_externals]
  by (simp add: two_clients_simps)

text \<open>
  C10. For a client id that is not in the registry, \<^verbatim>\<open>send_to_client\<close> writes nothing,
  leaves the whole state (the metrics with it) as it was, raises nothing and returns, with
  any fuel; so the loop of a broadcast passes over a member of its snapshot that has been
  disconnected in the meantime.
\<close>

theorem send_to_client_absent:
  assumes "c \<notin> set (clients s)"
  shows "send_to_client n c data s = Some (Return (), s)
       \<and> send_to_workspace_loop n (c # cs) data ex s = send_to_workspace_loop n cs data ex s"
  using assms by (simp add: send_to_client_unregistered)

text \<open>
  A server holding one client, and an id that is not registered.
\<close>

theorem send_to_client_absent_witness:
  "''c9'' \<notin> set (clients (one_client broken_wire))
   \<and> send_to_client 0 ''c9'' JNull (one_client broken_wire) = Some (Return (), one_client broken_wire)"
  using send_to_client_absent [of "''c9''" "one_client broken_wire" 0 JNull "[]" None]
  by (simp add: one_client_simps)

end
